theory Spec2Isabelle
  imports Complex_Main "HOL-Library.AList"
begin

section \<open>Python values\<close>

text \<open>
  The connector moves JSON documents of the upstream REST API into rows of the host
  application's database. Both sides are dynamically typed, so one datatype of Python
  values serves for the JSON documents, for the \<open>vals\<close> dictionaries handed to the ORM
  and for the values stored in a row. A dictionary is an association list read with
  \<open>map_of\<close> (the first entry of a key counts) and written with \<open>AList.update\<close>.
\<close>

datatype pyval =
    PNone
  | PBool bool
  | PInt int
  | PFloat real
  | PStr string
  | PDatetime string
  | PList "pyval list"
  | PDict "(string \<times> pyval) list"

type_synonym dict = "(string \<times> pyval) list"

datatype exn =
    KeyError string
  | IndexError string
  | ValueError string
  | TypeError string
  | AttributeError string
  | UserError string
  | StorageError string

text \<open>\<open>str(e)\<close> of an exception; a \<open>KeyError\<close> prints its key quoted.\<close>

fun exn_str :: "exn \<Rightarrow> string" where
  "exn_str (KeyError k) = [CHR 0x27] @ k @ [CHR 0x27]"
| "exn_str (IndexError m) = m"
| "exn_str (ValueError m) = m"
| "exn_str (TypeError m) = m"
| "exn_str (AttributeError m) = m"
| "exn_str (UserError m) = m"
| "exn_str (StorageError m) = m"

text \<open>
  What the code takes from outside the repository is a parameter of the model: the
  parsers behind \<open>float(s)\<close> and \<open>int(s)\<close> on a string (\<open>None\<close> where Python raises
  \<open>ValueError\<close>),
  \<open>dateutil\<close>'s parser followed by \<open>replace(tzinfo=None)\<close> (\<open>None\<close> where it raises),
  and the printing of values other than strings, integers, booleans and \<open>None\<close>.
\<close>

record pylib =
  float_of_str :: "string \<Rightarrow> real option"
  int_of_str :: "string \<Rightarrow> int option"
  date_parse :: "string \<Rightarrow> string option"
  repr_of :: "pyval \<Rightarrow> string"

fun truthy :: "pyval \<Rightarrow> bool" where
  "truthy PNone = False"
| "truthy (PBool b) = b"
| "truthy (PInt i) = (i \<noteq> 0)"
| "truthy (PFloat r) = (r \<noteq> 0)"
| "truthy (PStr s) = (s \<noteq> [])"
| "truthy (PDatetime d) = True"
| "truthy (PList xs) = (xs \<noteq> [])"
| "truthy (PDict d) = (d \<noteq> [])"

fun str_of_nat :: "nat \<Rightarrow> string" where
  "str_of_nat n =
     (if n < 10 then [''0123456789'' ! n]
      else str_of_nat (n div 10) @ [''0123456789'' ! (n mod 10)])"

definition str_of_int :: "int \<Rightarrow> string" where
  "str_of_int i = (if i < 0 then CHR ''-'' # str_of_nat (nat (- i)) else str_of_nat (nat i))"

text \<open>\<open>str(v)\<close>.\<close>

fun py_str :: "pylib \<Rightarrow> pyval \<Rightarrow> string" where
  "py_str L (PStr s) = s"
| "py_str L (PInt i) = str_of_int i"
| "py_str L PNone = ''None''"
| "py_str L (PBool b) = (if b then ''True'' else ''False'')"
| "py_str L v = repr_of L v"

text \<open>\<open>float(v)\<close>: a string is parsed, a number converted, anything else is a \<open>TypeError\<close>.\<close>

fun py_float :: "pylib \<Rightarrow> pyval \<Rightarrow> exn + real" where
  "py_float L (PStr s) =
     (case float_of_str L s of
        None \<Rightarrow> Inl (ValueError (''could not convert string to float: '' @ s))
      | Some r \<Rightarrow> Inr r)"
| "py_float L (PInt i) = Inr (of_int i)"
| "py_float L (PFloat r) = Inr r"
| "py_float L (PBool b) = Inr (if b then 1 else 0)"
| "py_float L v = Inl (TypeError ''float() argument must be a string or a real number'')"

text \<open>\<open>int(v)\<close>: a string is parsed, a float truncated towards zero.\<close>

fun py_int :: "pylib \<Rightarrow> pyval \<Rightarrow> exn + int" where
  "py_int L (PStr s) =
     (case int_of_str L s of
        None \<Rightarrow> Inl (ValueError (''invalid literal for int() with base 10: '' @ s))
      | Some i \<Rightarrow> Inr i)"
| "py_int L (PInt i) = Inr i"
| "py_int L (PFloat r) = Inr (if 0 \<le> r then \<lfloor>r\<rfloor> else \<lceil>r\<rceil>)"
| "py_int L (PBool b) = Inr (if b then 1 else 0)"
| "py_int L v = Inl (TypeError ''int() argument must be a string or a real number'')"

text \<open>\<open>d.get(k, dflt)\<close>, \<open>d.get(k)\<close> and \<open>d[k]\<close> on a dictionary.\<close>

definition dict_get :: "dict \<Rightarrow> string \<Rightarrow> pyval \<Rightarrow> pyval" where
  "dict_get d k dflt = (case map_of d k of None \<Rightarrow> dflt | Some v \<Rightarrow> v)"

definition dict_get0 :: "dict \<Rightarrow> string \<Rightarrow> pyval" where
  "dict_get0 d k = dict_get d k PNone"

definition dict_item :: "dict \<Rightarrow> string \<Rightarrow> exn + pyval" where
  "dict_item d k = (case map_of d k of None \<Rightarrow> Inl (KeyError k) | Some v \<Rightarrow> Inr v)"

text \<open>\<open>d.update(vals)\<close>: the entries of \<open>vals\<close> are written one after the other.\<close>

definition dict_update :: "dict \<Rightarrow> dict \<Rightarrow> dict" where
  "dict_update vals d = fold (\<lambda>(k, v). AList.update k v) vals d"

text \<open>
  \<open>v.get(...)\<close> on a value that is no dictionary raises \<open>AttributeError\<close>; \<open>as_dict\<close>
  is the test every such call starts with.
\<close>

fun as_dict :: "pyval \<Rightarrow> exn + dict" where
  "as_dict (PDict d) = Inr d"
| "as_dict v = Inl (AttributeError ''object has no attribute get'')"

section \<open>The ORM: rows, search, create, write, commit and rollback\<close>

text \<open>
  The storage layer is outside the repository; the model keeps the part of its contract
  the connector relies on. The database is a list of rows, each tagged with its model
  name and its id. A field that was never written reads \<open>False\<close>, as in the ORM.
  \<open>search\<close> returns the rows that satisfy every \<open>(field, '=', value)\<close> leaf of the
  domain, in the order of the list, and on a model that has an \<open>active\<close> field only
  the rows that are not archived; \<open>create\<close> appends a row under a fresh id of its model;
  \<open>write\<close> updates the named fields of the rows of a record set and leaves every other
  field and row alone. \<open>create\<close> and \<open>write\<close> are total functions on rows; where the
  code handles an exception of the storage (at \<open>commit\<close>, and around the ORM calls of
  the scheduler), the exception is an input of the model.
\<close>

record row =
  model :: string
  rid :: nat
  flds :: dict

datatype level = DEBUG | INFO | WARNING | ERROR

record env =
  db :: "row list"
  committed :: "row list"
  logs :: "(level \<times> string) list"
  commit_faults :: "bool list"

definition fld :: "row \<Rightarrow> string \<Rightarrow> pyval" where
  "fld r f = dict_get (flds r) f (PBool False)"

definition matches :: "dict \<Rightarrow> row \<Rightarrow> bool" where
  "matches dmn r = list_all (\<lambda>(f, v). fld r f = v) dmn"

text \<open>
  The implicit leaf of \<open>search\<close>: on a model with an \<open>active\<close> field, a domain that does
  not name the field is completed with \<open>active = True\<close>. The scheduler declares the field
  (scheduler.py, line 20); product templates, partners, currencies and price lists have it
  from the host application. \<open>create\<close> gives the field its default \<open>True\<close>, so a row
  on which it was never written is active.
\<close>

definition active_models :: "string list" where
  "active_models =
     [''shopify.scheduler'', ''product.template'', ''res.partner'', ''res.currency'',
      ''product.pricelist'']"

definition is_active :: "row \<Rightarrow> bool" where
  "is_active r = (dict_get (flds r) ''active'' (PBool True) = PBool True)"

definition active_test :: "string \<Rightarrow> dict \<Rightarrow> row \<Rightarrow> bool" where
  "active_test m dmn r =
     (if m \<in> set active_models \<and> ''active'' \<notin> fst ` set dmn then is_active r else True)"

definition found :: "string \<Rightarrow> dict \<Rightarrow> row \<Rightarrow> bool" where
  "found m dmn r = (model r = m \<and> matches dmn r \<and> active_test m dmn r)"

definition search_all :: "string \<Rightarrow> dict \<Rightarrow> row list \<Rightarrow> row list" where
  "search_all m dmn rows = filter (found m dmn) rows"

text \<open>\<open>search(domain, limit=1)\<close>: the first match, or the empty record set.\<close>

definition search_first :: "string \<Rightarrow> dict \<Rightarrow> row list \<Rightarrow> row option" where
  "search_first m dmn rows = find (found m dmn) rows"

definition browse :: "string \<Rightarrow> nat \<Rightarrow> row list \<Rightarrow> row option" where
  "browse m i rows = find (\<lambda>r. model r = m \<and> rid r = i) rows"

definition next_id :: "string \<Rightarrow> row list \<Rightarrow> nat" where
  "next_id m rows = Suc (fold max (map rid (filter (\<lambda>r. model r = m) rows)) 0)"

text \<open>
  Field defaults applied by \<open>create\<close>. Only one matters to the connector: a sale order
  starts in state \<open>draft\<close> (a default of the host application's sale module).
\<close>

definition defaults :: "string \<Rightarrow> dict" where
  "defaults m = (if m = ''sale.order'' then [(''state'', PStr ''draft'')] else [])"

definition orm_create :: "string \<Rightarrow> dict \<Rightarrow> row list \<Rightarrow> nat \<times> row list" where
  "orm_create m vals rows =
     (let i = next_id m rows
      in (i, rows @ [\<lparr>model = m, rid = i, flds = dict_update vals (defaults m)\<rparr>]))"

definition orm_write :: "string \<Rightarrow> nat list \<Rightarrow> dict \<Rightarrow> row list \<Rightarrow> row list" where
  "orm_write m ids vals rows =
     map (\<lambda>r. if model r = m \<and> rid r \<in> set ids
               then r\<lparr>flds := dict_update vals (flds r)\<rparr> else r) rows"

definition log_msg :: "level \<Rightarrow> string \<Rightarrow> env \<Rightarrow> env" where
  "log_msg lv msg e = e\<lparr>logs := logs e @ [(lv, msg)]\<rparr>"

text \<open>
  \<open>env.cr.commit()\<close> makes the working rows durable, unless the storage fails: the
  environment's \<open>commit_faults\<close> says, commit by commit, whether the next one raises.
  \<open>env.cr.rollback()\<close> returns the working rows to the last commit.
\<close>

definition cr_commit :: "env \<Rightarrow> exn option \<times> env" where
  "cr_commit e =
     (case commit_faults e of
        [] \<Rightarrow> (None, e\<lparr>committed := db e\<rparr>)
      | f # fs \<Rightarrow>
          if f then (Some (StorageError ''commit failed''), e\<lparr>commit_faults := fs\<rparr>)
          else (None, e\<lparr>committed := db e, commit_faults := fs\<rparr>))"

definition cr_rollback :: "env \<Rightarrow> env" where
  "cr_rollback e = e\<lparr>db := committed e\<rparr>"


section \<open>Scheduler: the stale-flag reset\<close>





section \<open>Scheduler: \<open>run_scheduled_sync\<close>\<close>

text \<open>
  The eight sub-syncs of \<open>run_scheduled_sync\<close> are eight blocks of one shape: if the
  scheduler's flag is set, call the import and record a success message, or record the
  exception's text. The model folds that block over the eight kinds, in the source's
  order. What a sub-sync does to the database is a parameter \<open>ops\<close>: an operation takes
  the instance id and the environment and returns the exception it raised, if any, and
  the environment it left.
\<close>

datatype subsync =
  Products | Customers | Orders | Inventory | Collections | GiftCards | Locations | Discounts

definition all_subsyncs :: "subsync list" where
  "all_subsyncs =
     [Products, Customers, Orders, Inventory, Collections, GiftCards, Locations, Discounts]"

fun sync_flag :: "subsync \<Rightarrow> string" where
  "sync_flag Products = ''sync_products''"
| "sync_flag Customers = ''sync_customers''"
| "sync_flag Orders = ''sync_orders''"
| "sync_flag Inventory = ''sync_inventory''"
| "sync_flag Collections = ''sync_collections''"
| "sync_flag GiftCards = ''sync_gift_cards''"
| "sync_flag Locations = ''sync_locations''"
| "sync_flag Discounts = ''sync_discounts''"

fun sync_ok_msg :: "subsync \<Rightarrow> string" where
  "sync_ok_msg Products = ''Products synced successfully''"
| "sync_ok_msg Customers = ''Customers synced successfully''"
| "sync_ok_msg Orders = ''Orders synced successfully''"
| "sync_ok_msg Inventory = ''Inventory synced successfully''"
| "sync_ok_msg Collections = ''Collections synced successfully''"
| "sync_ok_msg GiftCards = ''Gift cards synced successfully''"
| "sync_ok_msg Locations = ''Locations synced successfully''"
| "sync_ok_msg Discounts = ''Discounts synced successfully''"

fun sync_err_prefix :: "subsync \<Rightarrow> string" where
  "sync_err_prefix Products = ''Product sync failed: ''"
| "sync_err_prefix Customers = ''Customer sync failed: ''"
| "sync_err_prefix Orders = ''Order sync failed: ''"
| "sync_err_prefix Inventory = ''Inventory sync failed: ''"
| "sync_err_prefix Collections = ''Collection sync failed: ''"
| "sync_err_prefix GiftCards = ''Gift card sync failed: ''"
| "sync_err_prefix Locations = ''Location sync failed: ''"
| "sync_err_prefix Discounts = ''Discount sync failed: ''"

type_synonym sync_ops = "subsync \<Rightarrow> pyval \<Rightarrow> env \<Rightarrow> exn option \<times> env"

text \<open>
  What one run needs from outside: the library functions, the sub-syncs, the clock
  (\<open>fields.Datetime.now()\<close>), and what the storage does to the three writes of the run,
  each \<open>None\<close> when the write returns: \<open>rp_mark_fault\<close> is the exception the write of
  line 157 raises, \<open>rp_fault\<close> the exception the \<open>try\<close> block of lines 165 to 254 raises
  outside the per-sub-sync handlers (its status write of lines 247 to 252 is the one
  statement there that writes to the storage), and \<open>rp_handler_fault\<close> the exception the
  write of the handler, lines 258 to 263, raises. A write that raises changes no row.
\<close>

record run_params =
  rp_lib :: pylib
  rp_ops :: sync_ops
  rp_now :: string
  rp_mark_fault :: "exn option"
  rp_fault :: "exn option"
  rp_handler_fault :: "exn option"

definition scheduler_key :: "nat \<Rightarrow> string" where
  "scheduler_key sid = ''scheduler_'' @ str_of_nat sid"

text \<open>\<open>self.f\<close> of the scheduler record \<open>sid\<close>.\<close>

definition self_fld :: "nat \<Rightarrow> string \<Rightarrow> env \<Rightarrow> pyval" where
  "self_fld sid f e =
     (case browse ''shopify.scheduler'' sid (db e) of None \<Rightarrow> PBool False | Some r \<Rightarrow> fld r f)"

definition self_write :: "nat \<Rightarrow> dict \<Rightarrow> env \<Rightarrow> env" where
  "self_write sid vals e = e\<lparr>db := orm_write ''shopify.scheduler'' [sid] vals (db e)\<rparr>"

text \<open>\<open>sep.join(xs)\<close>.\<close>

fun join :: "string \<Rightarrow> string list \<Rightarrow> string" where
  "join sep [] = []"
| "join sep [x] = x"
| "join sep (x # y # ys) = x @ sep @ join sep (y # ys)"

text \<open>
  Lines 143 to 147: under \<open>_sync_lock\<close>, test and set the entry of the schedule in the
  process's \<open>_running_syncs\<close>. The result says whether the run may go on.
\<close>

definition guard_lock :: "pylib \<Rightarrow> nat \<Rightarrow> dict \<times> env \<Rightarrow> bool \<times> dict \<times> env" where
  "guard_lock L sid = (\<lambda>(running_syncs, e).
     if truthy (dict_get0 running_syncs (scheduler_key sid)) then
       (False, running_syncs,
        log_msg WARNING (''Sync for '' @ py_str L (self_fld sid ''name'' e)
          @ '' is already running. Skipping this execution.'') e)
     else (True, AList.update (scheduler_key sid) (PBool True) running_syncs, e))"

text \<open>Lines 150 to 154: the persisted flag; a run that finds it set gives its entry back.\<close>

definition guard_flag :: "pylib \<Rightarrow> nat \<Rightarrow> dict \<times> env \<Rightarrow> bool \<times> dict \<times> env" where
  "guard_flag L sid = (\<lambda>(running_syncs, e).
     if truthy (self_fld sid ''is_running'' e) then
       (False, AList.update (scheduler_key sid) (PBool False) running_syncs,
        log_msg WARNING (''Sync for '' @ py_str L (self_fld sid ''name'' e)
          @ '' is marked as running in database. Skipping.'') e)
     else (True, running_syncs, e))"

text \<open>Lines 157 and 158: set the flag and commit. They stand before the \<open>try\<close>.\<close>

definition mark_running :: "run_params \<Rightarrow> nat \<Rightarrow> env \<Rightarrow> exn option \<times> env" where
  "mark_running P sid e =
     (case rp_mark_fault P of
        Some x \<Rightarrow> (Some x, e)
      | None \<Rightarrow> cr_commit (self_write sid [(''is_running'', PBool True)] e))"

fun run_subsyncs ::
  "sync_ops \<Rightarrow> nat \<Rightarrow> subsync list \<Rightarrow> string list \<times> string list \<times> env
     \<Rightarrow> string list \<times> string list \<times> env" where
  "run_subsyncs ops sid [] acc = acc"
| "run_subsyncs ops sid (k # ks) (errors, success_messages, e) =
     (if truthy (self_fld sid (sync_flag k) e) then
        (case ops k (self_fld sid ''shopify_instance_id'' e) e of
           (None, e') \<Rightarrow>
             run_subsyncs ops sid ks (errors, success_messages @ [sync_ok_msg k], e')
         | (Some x, e') \<Rightarrow>
             run_subsyncs ops sid ks
               (errors @ [sync_err_prefix k @ exn_str x], success_messages, e'))
      else run_subsyncs ops sid ks (errors, success_messages, e))"

definition run_status :: "string list \<Rightarrow> string list \<Rightarrow> string" where
  "run_status errors success_messages =
     (if errors \<noteq> [] then (if success_messages \<noteq> [] then ''partial'' else ''failed'')
      else ''success'')"

definition run_message :: "string list \<Rightarrow> string list \<Rightarrow> string" where
  "run_message errors success_messages =
     (if errors \<noteq> [] then join [CHR 0x0A] (success_messages @ errors)
      else join [CHR 0x0A] success_messages)"

text \<open>The fields of the status write of lines 247 to 252 and of lines 258 to 263.\<close>

definition status_vals :: "string \<Rightarrow> string \<Rightarrow> string \<Rightarrow> dict" where
  "status_vals now status message =
     [(''last_run'', PDatetime now), (''last_run_status'', PStr status),
      (''last_run_message'', PStr message), (''is_running'', PBool False)]"

text \<open>Lines 160 to 237: the log line and the eight sub-syncs.\<close>

definition sub_result :: "run_params \<Rightarrow> nat \<Rightarrow> env \<Rightarrow> string list \<times> string list \<times> env" where
  "sub_result P sid e =
     run_subsyncs (rp_ops P) sid all_subsyncs
       ([], [], log_msg INFO (''Running scheduled sync for ''
                  @ py_str (rp_lib P) (self_fld sid ''name'' e)) e)"

text \<open>
  Lines 160 to 263: the sub-syncs and the status write, or the handler's write when the
  \<open>try\<close> block raised. The handler's write stands in no \<open>try\<close>: what it raises leaves
  the call, after the \<open>finally\<close> clause.
\<close>

definition run_body :: "run_params \<Rightarrow> nat \<Rightarrow> env \<Rightarrow> exn option \<times> env" where
  "run_body P sid e =
     (case sub_result P sid e of
        (errors, success_messages, e1) \<Rightarrow>
          (case rp_fault P of
             None \<Rightarrow>
               (None,
                log_msg INFO (''Scheduled sync completed with status: ''
                    @ run_status errors success_messages)
                  (self_write sid
                     (status_vals (rp_now P) (run_status errors success_messages)
                        (run_message errors success_messages)) e1))
           | Some x \<Rightarrow>
               (let e2 = log_msg ERROR (''Scheduled sync failed: '' @ exn_str x) e1
                in case rp_handler_fault P of
                     None \<Rightarrow>
                       (None, self_write sid (status_vals (rp_now P) ''failed'' (exn_str x)) e2)
                   | Some y \<Rightarrow> (Some y, e2))))"

text \<open>Lines 265 to 268: the \<open>finally\<close> clause gives the entry back.\<close>

definition release_lock :: "nat \<Rightarrow> dict \<Rightarrow> dict" where
  "release_lock sid running_syncs = AList.update (scheduler_key sid) (PBool False) running_syncs"

datatype outcome = SkippedLocked | SkippedRunning | Raised exn | Ran

text \<open>
  One call of \<open>run_scheduled_sync\<close>, from the state of the process's map and the
  environment to the state it leaves. An exception of lines 157 and 158 leaves the call
  at once: the \<open>finally\<close> clause belongs to the \<open>try\<close> that starts at line 165.
\<close>

definition run_scheduled_sync ::
  "run_params \<Rightarrow> nat \<Rightarrow> dict \<times> env \<Rightarrow> outcome \<times> dict \<times> env" where
  "run_scheduled_sync P sid st =
     (case guard_lock (rp_lib P) sid st of
        (False, rs1, e1) \<Rightarrow> (SkippedLocked, rs1, e1)
      | (True, rs1, e1) \<Rightarrow>
          (case guard_flag (rp_lib P) sid (rs1, e1) of
             (False, rs2, e2) \<Rightarrow> (SkippedRunning, rs2, e2)
           | (True, rs2, e2) \<Rightarrow>
               (case mark_running P sid e2 of
                  (Some x, e3) \<Rightarrow> (Raised x, rs2, e3)
                | (None, e3) \<Rightarrow>
                    (case run_body P sid e3 of
                       (None, e4) \<Rightarrow> (Ran, release_lock sid rs2, e4)
                     | (Some y, e4) \<Rightarrow> (Raised y, release_lock sid rs2, e4)))))"

section \<open>HTTP and the shop instance\<close>

text \<open>
  A response of the upstream API, as far as the code reads it: the status code, the text,
  the parsed body (\<open>None\<close> where \<open>response.json()\<close> raises) and the \<open>Link\<close> header
  (empty when absent). A request either raises or returns a response.
\<close>

record response =
  status_code :: int
  text_of :: string
  body :: "pyval option"
  link_header :: string

type_synonym http_result = "exn + response"

text \<open>A \<open>shopify.instance\<close> record: its id and its currency, if one is set.\<close>

record shop =
  inst_id :: nat
  inst_currency :: "nat option"

section \<open>Discounts: \<open>_create_or_update_discount\<close>\<close>

text \<open>
  Lines 156 to 166 of discount.py fetch the discount codes of the price rule inside a
  \<open>try\<close> whose handler logs a warning: \<open>None\<close> is the case where the handler ran, and
  the code keeps its initial empty string.
\<close>

definition first_discount_code :: "http_result \<Rightarrow> pyval option" where
  "first_discount_code dc_response =
     (case dc_response of
        Inl x \<Rightarrow> None
      | Inr r \<Rightarrow>
          if status_code r = 200 then
            (case body r of
               None \<Rightarrow> None
             | Some b \<Rightarrow>
                 (case as_dict b of
                    Inl x \<Rightarrow> None
                  | Inr d \<Rightarrow>
                      (let discount_codes = dict_get d ''discount_codes'' (PList [])
                       in if truthy discount_codes then
                            (case discount_codes of
                               PList (c # cs) \<Rightarrow>
                                 (case as_dict c of
                                    Inl x \<Rightarrow> None
                                  | Inr cd \<Rightarrow> Some (dict_get cd ''code'' (PStr [])))
                             | _ \<Rightarrow> None)
                          else Some (PStr []))))
          else Some (PStr []))"

text \<open>\<open>','.join(map(str, v))\<close>: over a list, the characters of a string or the keys of a
  dictionary; any other value is not iterable.\<close>

definition join_ids :: "pylib \<Rightarrow> pyval \<Rightarrow> exn + string" where
  "join_ids L v =
     (case v of
        PList xs \<Rightarrow> Inr (join '','' (map (py_str L) xs))
      | PStr s \<Rightarrow> Inr (join '','' (map (\<lambda>c. [c]) s))
      | PDict d \<Rightarrow> Inr (join '','' (map fst d))
      | _ \<Rightarrow> Inl (TypeError ''object is not iterable''))"

text \<open>The four dates of lines 204 to 235: a date that is absent, empty or does not parse
  adds nothing to \<open>vals\<close>.\<close>

definition date_entry :: "pylib \<Rightarrow> dict \<Rightarrow> string \<Rightarrow> string \<Rightarrow> dict" where
  "date_entry L data key field =
     (let v = dict_get0 data key
      in if truthy v then
           (case v of
              PStr s \<Rightarrow> (case date_parse L s of None \<Rightarrow> [] | Some d \<Rightarrow> [(field, PDatetime d)])
            | _ \<Rightarrow> [])
         else [])"

text \<open>
  The value of the price rule, lines 148 to 154: \<open>float\<close> of the raw value, and its
  absolute value when the value type is \<open>percentage\<close> (the default of an absent type).
\<close>

definition discount_value :: "pylib \<Rightarrow> dict \<Rightarrow> exn + real" where
  "discount_value L price_rule_data =
     (let value_type = dict_get price_rule_data ''value_type'' (PStr ''percentage'')
      in case py_float L (dict_get price_rule_data ''value'' (PFloat 0)) of
           Inl x \<Rightarrow> Inl x
         | Inr value \<Rightarrow> Inr (if value_type = PStr ''percentage'' then \<bar>value\<bar> else value))"

text \<open>Lines 184 to 202: the optional entries, each of which may raise.\<close>

definition prerequisite_subtotal_entry :: "pylib \<Rightarrow> dict \<Rightarrow> exn + dict" where
  "prerequisite_subtotal_entry L data =
     (let p = dict_get data ''prerequisite_subtotal_range'' (PDict [])
      in if truthy p then
           (case as_dict p of
              Inl x \<Rightarrow> Inl x
            | Inr d \<Rightarrow>
                (case py_float L (dict_get d ''greater_than_or_equal_to'' (PFloat 0)) of
                   Inl x \<Rightarrow> Inl x
                 | Inr v \<Rightarrow> Inr [(''prerequisite_subtotal_range'', PFloat v)]))
         else Inr [])"

definition prerequisite_quantity_entry :: "pylib \<Rightarrow> dict \<Rightarrow> exn + dict" where
  "prerequisite_quantity_entry L data =
     (let p = dict_get data ''prerequisite_quantity_range'' (PDict [])
      in if truthy p then
           (case as_dict p of
              Inl x \<Rightarrow> Inl x
            | Inr d \<Rightarrow>
                (case py_int L (dict_get d ''greater_than_or_equal_to'' (PInt 0)) of
                   Inl x \<Rightarrow> Inl x
                 | Inr v \<Rightarrow> Inr [(''prerequisite_quantity_range'', PInt v)]))
         else Inr [])"

definition entitled_entry :: "pylib \<Rightarrow> dict \<Rightarrow> string \<Rightarrow> exn + dict" where
  "entitled_entry L data key =
     (let ids = dict_get data key (PList [])
      in if truthy ids then
           (case join_ids L ids of Inl x \<Rightarrow> Inl x | Inr s \<Rightarrow> Inr [(key, PStr s)])
         else Inr [])"

text \<open>The \<open>vals\<close> of a price rule: the entries of lines 168 to 182, then the optional ones
  in the order the code adds them.\<close>

definition discount_vals ::
  "pylib \<Rightarrow> nat \<Rightarrow> pyval \<Rightarrow> dict \<Rightarrow> shop \<Rightarrow> exn + dict" where
  "discount_vals L company_currency discount_code price_rule_data inst =
     (let shopify_id = py_str L (dict_get0 price_rule_data ''id'');
          currency = (case inst_currency inst of Some c \<Rightarrow> c | None \<Rightarrow> company_currency);
          value_type = dict_get price_rule_data ''value_type'' (PStr ''percentage'')
      in case discount_value L price_rule_data of
           Inl x \<Rightarrow> Inl x
         | Inr value \<Rightarrow>
        (case prerequisite_subtotal_entry L price_rule_data of
           Inl x \<Rightarrow> Inl x
         | Inr sub \<Rightarrow>
        (case prerequisite_quantity_entry L price_rule_data of
           Inl x \<Rightarrow> Inl x
         | Inr qty \<Rightarrow>
        (case entitled_entry L price_rule_data ''entitled_product_ids'' of
           Inl x \<Rightarrow> Inl x
         | Inr prods \<Rightarrow>
        (case entitled_entry L price_rule_data ''entitled_collection_ids'' of
           Inl x \<Rightarrow> Inl x
         | Inr colls \<Rightarrow>
             Inr ([(''name'', dict_get price_rule_data ''title'' (PStr ''Unnamed Discount'')),
                   (''shopify_instance_id'', PInt (int (inst_id inst))),
                   (''shopify_price_rule_id'', PStr shopify_id),
                   (''discount_code'', discount_code),
                   (''value'', PFloat value),
                   (''value_type'', value_type),
                   (''target_type'', dict_get price_rule_data ''target_type'' (PStr ''line_item'')),
                   (''target_selection'', dict_get price_rule_data ''target_selection'' (PStr ''all'')),
                   (''allocation_method'',
                      dict_get price_rule_data ''allocation_method'' (PStr ''across'')),
                   (''usage_limit'', dict_get price_rule_data ''usage_limit'' (PInt 0)),
                   (''once_per_customer'',
                      dict_get price_rule_data ''once_per_customer'' (PBool False)),
                   (''currency_id'', PInt (int currency)),
                   (''active_discount'', PBool True)]
                  @ sub @ qty @ prods @ colls
                  @ date_entry L price_rule_data ''starts_at'' ''starts_at''
                  @ date_entry L price_rule_data ''ends_at'' ''ends_at''
                  @ date_entry L price_rule_data ''created_at'' ''shopify_created_at''
                  @ date_entry L price_rule_data ''updated_at'' ''shopify_updated_at''))))))"

text \<open>
  \<open>_create_or_update_discount\<close>: search the rule by (price rule id, instance), build the
  values, then write them on the rule found or create a rule. The result is the id of
  the record returned, or the exception that left the function.
\<close>

definition create_or_update_discount ::
  "pylib \<Rightarrow> nat \<Rightarrow> http_result \<Rightarrow> dict \<Rightarrow> shop \<Rightarrow> env \<Rightarrow> (exn + nat) \<times> env" where
  "create_or_update_discount L company_currency dc_response price_rule_data inst e =
     (let shopify_id = py_str L (dict_get0 price_rule_data ''id'');
          existing = search_first ''shopify.discount''
                       [(''shopify_price_rule_id'', PStr shopify_id),
                        (''shopify_instance_id'', PInt (int (inst_id inst)))] (db e)
      in case discount_value L price_rule_data of
           Inl x \<Rightarrow> (Inl x, e)
         | Inr value \<Rightarrow>
             (let e1 = (case first_discount_code dc_response of
                          None \<Rightarrow> log_msg WARNING
                                    (''Could not fetch discount codes for price rule '' @ shopify_id) e
                        | Some c \<Rightarrow> e);
                  discount_code = (case first_discount_code dc_response of
                                     None \<Rightarrow> PStr [] | Some c \<Rightarrow> c)
              in case discount_vals L company_currency discount_code price_rule_data inst of
                   Inl x \<Rightarrow> (Inl x, e1)
                 | Inr vals \<Rightarrow>
                     (case existing of
                        Some r \<Rightarrow>
                          (Inr (rid r),
                           e1\<lparr>db := orm_write ''shopify.discount'' [rid r] vals (db e1)\<rparr>)
                      | None \<Rightarrow>
                          (Inr (fst (orm_create ''shopify.discount'' vals (db e1))),
                           e1\<lparr>db := snd (orm_create ''shopify.discount'' vals (db e1))\<rparr>))))"

section \<open>Strings and the \<open>Link\<close> header\<close>

text \<open>\<open>p in s\<close> on strings.\<close>

fun contains :: "string \<Rightarrow> string \<Rightarrow> bool" where
  "contains p [] = (p = [])"
| "contains p (c # cs) = (take (length p) (c # cs) = p \<or> contains p cs)"

text \<open>
  \<open>s.split(sep)\<close> for a separator that is not empty: the pieces between the occurrences
  of \<open>sep\<close>, found from the left. The counter skips the rest of a separator just matched.
\<close>

fun split_aux :: "string \<Rightarrow> nat \<Rightarrow> string \<Rightarrow> string \<Rightarrow> string list" where
  "split_aux sep k acc [] = [rev acc]"
| "split_aux sep (Suc k) acc (c # cs) = split_aux sep k acc cs"
| "split_aux sep 0 acc (c # cs) =
     (if take (length sep) (c # cs) = sep then rev acc # split_aux sep (length sep - 1) [] cs
      else split_aux sep 0 (c # acc) cs)"

definition py_split :: "string \<Rightarrow> string \<Rightarrow> string list" where
  "py_split sep s = split_aux sep 0 [] s"

definition rel_next :: string where
  "rel_next = ''rel='' @ [CHR 0x22] @ ''next'' @ [CHR 0x22]"

text \<open>
  The pagination step shared by the imports: if the header names a next page, the first
  link that does gives the cursor, \<open>link.split('page_info=')[1].split('>')[0]\<close>
  (an \<open>IndexError\<close> when the link has no \<open>page_info=\<close>). \<open>Inr None\<close> says that there is no
  next page and the loop ends.
\<close>

definition next_page_info :: "string \<Rightarrow> exn + string option" where
  "next_page_info link_hdr =
     (if contains rel_next link_hdr then
        (case find (contains rel_next) (py_split '','' link_hdr) of
           None \<Rightarrow> Inr None
         | Some link \<Rightarrow>
             (case py_split ''page_info='' link of
                a # b # rest \<Rightarrow>
                  (case py_split ''>'' b of t # ts \<Rightarrow> Inr (Some t) | [] \<Rightarrow> Inr (Some []))
              | _ \<Rightarrow> Inl (IndexError ''list index out of range'')))
      else Inr None)"

section \<open>Products: \<open>_prepare_product_vals\<close>, \<open>_process_product_batch\<close>, \<open>import_shopify_products\<close>\<close>

text \<open>\<open>_parse_shopify_datetime\<close>: \<open>False\<close> for an absent value and for one that does not
  parse.\<close>

definition parse_shopify_datetime :: "pylib \<Rightarrow> pyval \<Rightarrow> pyval" where
  "parse_shopify_datetime L v =
     (if \<not> truthy v then PBool False
      else (case v of
              PStr s \<Rightarrow> (case date_parse L s of None \<Rightarrow> PBool False | Some d \<Rightarrow> PDatetime d)
            | _ \<Rightarrow> PBool False))"

text \<open>
  \<open>xs and len(xs) > 0\<close> followed by \<open>xs[0]\<close>: \<open>Inr None\<close> when the test fails, the first
  item when it holds; \<open>len\<close> of a number and \<open>d[0]\<close> on a dictionary raise.
\<close>

definition first_item :: "pyval \<Rightarrow> exn + pyval option" where
  "first_item xs =
     (if \<not> truthy xs then Inr None
      else (case xs of
              PList (x # rest) \<Rightarrow> Inr (Some x)
            | PStr (c # rest) \<Rightarrow> Inr (Some (PStr [c]))
            | PDict d \<Rightarrow> Inl (KeyError ''0'')
            | _ \<Rightarrow> Inl (TypeError ''object has no len()'')))"

text \<open>Lines 194 to 205: price and SKU of the first variant.\<close>

definition variant_price_sku :: "pylib \<Rightarrow> dict \<Rightarrow> exn + real \<times> pyval" where
  "variant_price_sku L product_data =
     (case first_item (dict_get product_data ''variants'' (PList [])) of
        Inl x \<Rightarrow> Inl x
      | Inr None \<Rightarrow> Inr (0, PStr [])
      | Inr (Some first_variant) \<Rightarrow>
          (case as_dict first_variant of
             Inl x \<Rightarrow> Inl x
           | Inr fv \<Rightarrow>
               (let price_str = dict_get fv ''price'' (PStr ''0'');
                    sku = (if truthy (dict_get fv ''sku'' (PStr [])) then dict_get fv ''sku'' (PStr [])
                           else PStr [])
                in if truthy price_str then
                     (case py_float L price_str of Inl x \<Rightarrow> Inl x | Inr p \<Rightarrow> Inr (p, sku))
                   else Inr (0, sku))))"

text \<open>
  Lines 230 to 238: the main image, when images are not skipped. The download is a
  request to the outside, \<open>fetch\<close>: it returns the encoded image or \<open>False\<close>.
\<close>

definition image_entry :: "(pyval \<Rightarrow> pyval) \<Rightarrow> bool \<Rightarrow> dict \<Rightarrow> exn + dict" where
  "image_entry fetch skip_images product_data =
     (if skip_images then Inr []
      else (case first_item (dict_get product_data ''images'' (PList [])) of
              Inl x \<Rightarrow> Inl x
            | Inr None \<Rightarrow> Inr []
            | Inr (Some img) \<Rightarrow>
                (case as_dict img of
                   Inl x \<Rightarrow> Inl x
                 | Inr i \<Rightarrow>
                     (let main_image_url = dict_get0 i ''src''
                      in if truthy main_image_url \<and> truthy (fetch main_image_url)
                         then Inr [(''image_1920'', fetch main_image_url)] else Inr []))))"

definition prepare_product_vals ::
  "pylib \<Rightarrow> (pyval \<Rightarrow> pyval) \<Rightarrow> bool \<Rightarrow> dict \<Rightarrow> shop \<Rightarrow> exn + dict" where
  "prepare_product_vals L fetch skip_images product_data inst =
     (case variant_price_sku L product_data of
        Inl x \<Rightarrow> Inl x
      | Inr (price, sku) \<Rightarrow>
          (case dict_item product_data ''id'' of
             Inl x \<Rightarrow> Inl x
           | Inr pid \<Rightarrow>
               (case image_entry fetch skip_images product_data of
                  Inl x \<Rightarrow> Inl x
                | Inr img \<Rightarrow>
                    Inr ([(''name'', dict_get product_data ''title'' (PStr ''Unnamed Product'')),
                          (''description'', dict_get product_data ''body_html'' (PStr [])),
                          (''shopify_instance_id'', PInt (int (inst_id inst))),
                          (''shopify_product_id'', PStr (py_str L pid)),
                          (''is_shopify_product'', PBool True),
                          (''shopify_product_status'',
                             dict_get product_data ''status'' (PStr ''active'')),
                          (''shopify_product_type'', dict_get product_data ''product_type'' (PStr [])),
                          (''shopify_vendor'', dict_get product_data ''vendor'' (PStr [])),
                          (''shopify_tags'', dict_get product_data ''tags'' (PStr [])),
                          (''shopify_published_at'',
                             parse_shopify_datetime L (dict_get0 product_data ''published_at'')),
                          (''shopify_created_at'',
                             parse_shopify_datetime L (dict_get0 product_data ''created_at'')),
                          (''shopify_updated_at'',
                             parse_shopify_datetime L (dict_get0 product_data ''updated_at'')),
                          (''list_price'', PFloat price),
                          (''default_code'', sku),
                          (''sale_ok'', PBool True),
                          (''purchase_ok'', PBool True)]
                         @ (case inst_currency inst of
                              Some c \<Rightarrow> [(''currency_id'', PInt (int c))] | None \<Rightarrow> [])
                         @ img))))"

text \<open>
  \<open>_process_product_batch\<close>. A record is mapped and upserted inside a \<open>try\<close>; the handler
  logs the record's id and title with \<open>product_data.get\<close> and goes on. On a record that is
  no dictionary the handler's own \<open>get\<close> raises, and that exception leaves the function.
  The result is the pair of counts, or the exception that left the function; the
  environment is the one reached either way.
\<close>

definition product_key :: "pylib \<Rightarrow> dict \<Rightarrow> shop \<Rightarrow> dict" where
  "product_key L product_data inst =
     [(''shopify_product_id'', PStr (py_str L (dict_get0 product_data ''id''))),
      (''shopify_instance_id'', PInt (int (inst_id inst)))]"

definition process_product ::
  "pylib \<Rightarrow> (pyval \<Rightarrow> pyval) \<Rightarrow> bool \<Rightarrow> shop \<Rightarrow> pyval \<Rightarrow> nat \<times> nat \<Rightarrow> env
     \<Rightarrow> (exn + nat \<times> nat) \<times> env" where
  "process_product L fetch skip_images inst p counts e =
     (case as_dict p of
        Inl x \<Rightarrow> (Inl x, e)
      | Inr product_data \<Rightarrow>
          (case prepare_product_vals L fetch skip_images product_data inst of
             Inl x \<Rightarrow>
               (Inr counts,
                log_msg ERROR (''Error processing product ''
                  @ py_str L (dict_get0 product_data ''id'') @ '' (''
                  @ py_str L (dict_get0 product_data ''title'') @ ''): '' @ exn_str x) e)
           | Inr product_vals \<Rightarrow>
               (case search_first ''product.template'' (product_key L product_data inst) (db e) of
                  Some existing_product \<Rightarrow>
                    (Inr (fst counts, Suc (snd counts)),
                     log_msg DEBUG (''Updated product: ''
                       @ py_str L (dict_get0 product_data ''title''))
                       (e\<lparr>db := orm_write ''product.template'' [rid existing_product]
                                   product_vals (db e)\<rparr>))
                | None \<Rightarrow>
                    (Inr (Suc (fst counts), snd counts),
                     log_msg DEBUG (''Created product: ''
                       @ py_str L (dict_get0 product_data ''title''))
                       (e\<lparr>db := snd (orm_create ''product.template'' product_vals (db e))\<rparr>)))))"

fun process_product_batch ::
  "pylib \<Rightarrow> (pyval \<Rightarrow> pyval) \<Rightarrow> bool \<Rightarrow> shop \<Rightarrow> pyval list \<Rightarrow> nat \<times> nat \<Rightarrow> env
     \<Rightarrow> (exn + nat \<times> nat) \<times> env" where
  "process_product_batch L fetch skip_images inst [] counts e = (Inr counts, e)"
| "process_product_batch L fetch skip_images inst (p # products_batch) counts e =
     (case process_product L fetch skip_images inst p counts e of
        (Inl x, e1) \<Rightarrow> (Inl x, e1)
      | (Inr counts1, e1) \<Rightarrow>
          process_product_batch L fetch skip_images inst products_batch counts1 e1)"

text \<open>\<open>[xs[i:i + n] for i in range(0, len(xs), n)]\<close>, for \<open>n > 0\<close>.\<close>

fun chunks :: "nat \<Rightarrow> 'a list \<Rightarrow> 'a list list" where
  "chunks n [] = []"
| "chunks n (x # xs) =
     (if n = 0 then [] else take n (x # xs) # chunks n (drop n (x # xs)))"

text \<open>
  Lines 79 to 96 of product.py: every batch goes through \<open>_process_product_batch\<close> and a
  commit inside a \<open>try\<close>; the handler logs the error, rolls back and goes on with the
  next batch.
\<close>

definition product_batch ::
  "pylib \<Rightarrow> (pyval \<Rightarrow> pyval) \<Rightarrow> bool \<Rightarrow> shop \<Rightarrow> pyval list \<Rightarrow> nat \<Rightarrow> nat \<times> nat \<Rightarrow> env
     \<Rightarrow> (nat \<times> nat) \<times> env" where
  "product_batch L fetch skip_images inst batch batch_num counts e =
     (let e0 = log_msg INFO (''Processing batch '' @ str_of_nat batch_num) e
      in case process_product_batch L fetch skip_images inst batch (0, 0) e0 of
           (Inl x, e1) \<Rightarrow>
             (counts,
              cr_rollback (log_msg ERROR (''Error processing batch '' @ str_of_nat batch_num
                @ '': '' @ exn_str x) e1))
         | (Inr batch_counts, e1) \<Rightarrow>
             (case cr_commit e1 of
                (Some x, e2) \<Rightarrow>
                  ((fst counts + fst batch_counts, snd counts + snd batch_counts),
                   cr_rollback (log_msg ERROR (''Error processing batch ''
                     @ str_of_nat batch_num @ '': '' @ exn_str x) e2))
              | (None, e2) \<Rightarrow>
                  ((fst counts + fst batch_counts, snd counts + snd batch_counts),
                   log_msg INFO (''Batch '' @ str_of_nat batch_num @ '' complete: Created ''
                     @ str_of_nat (fst batch_counts) @ '', Updated ''
                     @ str_of_nat (snd batch_counts)) e2)))"

fun product_batches ::
  "pylib \<Rightarrow> (pyval \<Rightarrow> pyval) \<Rightarrow> bool \<Rightarrow> shop \<Rightarrow> pyval list list \<Rightarrow> nat \<Rightarrow> nat \<times> nat \<Rightarrow> env
     \<Rightarrow> (nat \<times> nat) \<times> env" where
  "product_batches L fetch skip_images inst [] batch_num counts e = (counts, e)"
| "product_batches L fetch skip_images inst (batch # rest) batch_num counts e =
     (case product_batch L fetch skip_images inst batch batch_num counts e of
        (counts1, e1) \<Rightarrow> product_batches L fetch skip_images inst rest (Suc batch_num) counts1 e1)"

text \<open>
  The network as the import sees it: the responses still to come, one per request, and
  the query parameters of the requests sent so far.
\<close>

record net =
  pending :: "http_result list"
  sent :: "dict list"

text \<open>
  One turn of the \<open>while True\<close> loop of \<open>import_shopify_products\<close>, lines 55 to 107:
  the turn ends the loop, with the counts or with the exception that leaves it, or hands
  the next cursor and the counts to the next turn. The body of a response is an object
  whose \<open>products\<close> entry is a list: any other value there is reported as a \<open>TypeError\<close>.
  Counts are (total fetched, created, updated).
\<close>

datatype 'a turn = Stop "exn + 'a" env | Again string 'a env

definition request_params :: "dict \<Rightarrow> pyval \<Rightarrow> dict" where
  "request_params params page_info =
     (if truthy page_info then [(''page_info'', page_info)] else params)"

definition product_page ::
  "pylib \<Rightarrow> (pyval \<Rightarrow> pyval) \<Rightarrow> bool \<Rightarrow> nat \<Rightarrow> shop \<Rightarrow> http_result \<Rightarrow> nat
     \<Rightarrow> nat \<times> nat \<times> nat \<Rightarrow> env \<Rightarrow> (nat \<times> nat \<times> nat) turn" where
  "product_page L fetch skip_images batch_size inst resp page_number acc e =
     (let e0 = log_msg INFO (''Fetching products page '' @ str_of_nat page_number @ ''...'') e
      in case resp of
           Inl x \<Rightarrow> Stop (Inl x) e0
         | Inr response \<Rightarrow>
             if status_code response \<noteq> 200 then
               Stop (Inl (UserError (''Failed to fetch products: ''
                       @ str_of_int (status_code response) @ '' - '' @ text_of response))) e0
             else
               (case body response of
                  None \<Rightarrow> Stop (Inl (ValueError ''response is not JSON'')) e0
                | Some data \<Rightarrow>
                    (case as_dict data of
                       Inl x \<Rightarrow> Stop (Inl x) e0
                     | Inr d \<Rightarrow>
                         (let products = dict_get d ''products'' (PList [])
                          in if \<not> truthy products then
                               Stop (Inr acc) (log_msg INFO ''No more products to fetch'' e0)
                             else
                               (case products of
                                  PList ps \<Rightarrow>
                                    if batch_size = 0 then
                                      Stop (Inl (ValueError ''range() arg 3 must not be zero'')) e0
                                    else
                                      (let e1 = log_msg INFO (''Page '' @ str_of_nat page_number
                                                  @ '': Fetched '' @ str_of_nat (length ps)
                                                  @ '' products'') e0;
                                           r = product_batches L fetch skip_images inst
                                                 (chunks batch_size ps) 1 (snd acc) e1;
                                           acc1 = (fst acc + length ps, fst r)
                                       in case next_page_info (link_header response) of
                                            Inl x \<Rightarrow> Stop (Inl x) (snd r)
                                          | Inr None \<Rightarrow> Stop (Inr acc1) (snd r)
                                          | Inr (Some t) \<Rightarrow> Again t acc1 (snd r))
                                | _ \<Rightarrow> Stop (Inl (TypeError ''products is not a list'')) e0)))))"

text \<open>
  The loop takes one response per turn, so the recursion is on the responses to come;
  \<open>None\<close> says that they ran out before the loop ended. Every request is recorded with
  its query parameters.
\<close>

fun product_pages ::
  "pylib \<Rightarrow> (pyval \<Rightarrow> pyval) \<Rightarrow> bool \<Rightarrow> nat \<Rightarrow> shop \<Rightarrow> http_result list \<Rightarrow> pyval \<Rightarrow> nat
     \<Rightarrow> nat \<times> nat \<times> nat \<Rightarrow> dict list \<Rightarrow> env
     \<Rightarrow> ((exn + nat \<times> nat \<times> nat) \<times> net \<times> env) option" where
  "product_pages L fetch skip_images batch_size inst [] page_info page_number acc reqs e = None"
| "product_pages L fetch skip_images batch_size inst (resp # rest) page_info page_number acc reqs e =
     (case product_page L fetch skip_images batch_size inst resp page_number acc e of
        Stop r e1 \<Rightarrow>
          Some (r, \<lparr>pending = rest,
                     sent = reqs @ [request_params [(''limit'', PInt 250)] page_info]\<rparr>, e1)
      | Again t acc1 e1 \<Rightarrow>
          product_pages L fetch skip_images batch_size inst rest (PStr t) (Suc page_number) acc1
            (reqs @ [request_params [(''limit'', PInt 250)] page_info]) e1)"

text \<open>
  \<open>import_shopify_products\<close>: an empty instance raises at once; any exception of the
  loop is logged and raised again as a \<open>UserError\<close>; a loop that ends writes the
  instance's \<open>last_product_sync\<close> and returns the counts of its notification.
\<close>

definition import_shopify_products ::
  "pylib \<Rightarrow> (pyval \<Rightarrow> pyval) \<Rightarrow> string \<Rightarrow> shop option \<Rightarrow> nat \<Rightarrow> bool \<Rightarrow> net \<Rightarrow> env
     \<Rightarrow> ((exn + nat \<times> nat \<times> nat) \<times> net \<times> env) option" where
  "import_shopify_products L fetch now instance batch_size skip_images n e =
     (case instance of
        None \<Rightarrow> Some (Inl (UserError ''Shopify instance not found''), n, e)
      | Some inst \<Rightarrow>
          (case product_pages L fetch skip_images batch_size inst (pending n) PNone 1 (0, 0, 0)
                  (sent n) e of
             None \<Rightarrow> None
           | Some (Inl x, n1, e1) \<Rightarrow>
               Some (Inl (UserError (''Error importing products: '' @ exn_str x)), n1,
                     log_msg ERROR (''Error importing products: '' @ exn_str x) e1)
           | Some (Inr (total_fetched, created_count, updated_count), n1, e1) \<Rightarrow>
               (let e2 = log_msg INFO (''Product import complete! Total: ''
                           @ str_of_nat total_fetched @ '', Created: '' @ str_of_nat created_count
                           @ '', Updated: '' @ str_of_nat updated_count) e1
                in Some (Inr (total_fetched, created_count, updated_count), n1,
                         e2\<lparr>db := orm_write ''shopify.instance'' [inst_id inst]
                                      [(''last_product_sync'', PDatetime now)] (db e2)\<rparr>))))"

section \<open>Customers: \<open>_prepare_customer_vals\<close> and \<open>import_shopify_customers\<close>\<close>

text \<open>\<open>s.upper()\<close> and \<open>s.strip()\<close>, on ASCII text.\<close>

definition upper_char :: "char \<Rightarrow> char" where
  "upper_char c =
     (let n = (of_char c :: nat) in if 97 \<le> n \<and> n \<le> 122 then char_of (n - 32) else c)"

definition py_upper :: "string \<Rightarrow> string" where
  "py_upper s = map upper_char s"

definition is_space :: "char \<Rightarrow> bool" where
  "is_space c = (let n = (of_char c :: nat) in n = 32 \<or> (9 \<le> n \<and> n \<le> 13))"

definition py_strip :: "string \<Rightarrow> string" where
  "py_strip s = rev (dropWhile is_space (rev (dropWhile is_space s)))"

text \<open>\<open>v.upper()\<close> on a value: only a string has the method.\<close>

definition upper_of :: "pyval \<Rightarrow> exn + string" where
  "upper_of v =
     (case v of PStr s \<Rightarrow> Inr (py_upper s)
      | _ \<Rightarrow> Inl (AttributeError ''object has no attribute upper''))"

text \<open>\<open>_get_country_id\<close> and \<open>_get_state_id\<close>: the id of the record found, or \<open>False\<close>. The
  second domain follows the state's country to its code.\<close>

definition get_country_id :: "pyval \<Rightarrow> row list \<Rightarrow> exn + pyval" where
  "get_country_id country_code rows =
     (if \<not> truthy country_code then Inr (PBool False)
      else (case upper_of country_code of
              Inl x \<Rightarrow> Inl x
            | Inr code \<Rightarrow>
                (case search_first ''res.country'' [(''code'', PStr code)] rows of
                   None \<Rightarrow> Inr (PBool False)
                 | Some country \<Rightarrow> Inr (PInt (int (rid country))))))"

definition state_in_country :: "string \<Rightarrow> string \<Rightarrow> row list \<Rightarrow> row \<Rightarrow> bool" where
  "state_in_country state_code country_code rows r =
     (model r = ''res.country.state'' \<and> fld r ''code'' = PStr state_code
      \<and> (case fld r ''country_id'' of
            PInt c \<Rightarrow>
              (case browse ''res.country'' (nat c) rows of
                 None \<Rightarrow> False
               | Some country \<Rightarrow> 0 \<le> c \<and> fld country ''code'' = PStr country_code)
          | _ \<Rightarrow> False))"

definition get_state_id :: "pyval \<Rightarrow> pyval \<Rightarrow> row list \<Rightarrow> exn + pyval" where
  "get_state_id state_code country_code rows =
     (if \<not> truthy state_code \<or> \<not> truthy country_code then Inr (PBool False)
      else (case upper_of state_code of
              Inl x \<Rightarrow> Inl x
            | Inr sc \<Rightarrow>
                (case upper_of country_code of
                   Inl x \<Rightarrow> Inl x
                 | Inr cc \<Rightarrow>
                     (case find (state_in_country sc cc rows) rows of
                        None \<Rightarrow> Inr (PBool False)
                      | Some st \<Rightarrow> Inr (PInt (int (rid st)))))))"

text \<open>Lines 143 to 152 of partner.py: the address entries, when there is a default address.\<close>

definition address_entries :: "dict \<Rightarrow> row list \<Rightarrow> exn + dict" where
  "address_entries customer_data rows =
     (let default_address = dict_get customer_data ''default_address'' (PDict [])
      in if \<not> truthy default_address then Inr []
         else (case as_dict default_address of
                 Inl x \<Rightarrow> Inl x
               | Inr a \<Rightarrow>
                   (case get_country_id (dict_get0 a ''country_code'') rows of
                      Inl x \<Rightarrow> Inl x
                    | Inr country \<Rightarrow>
                        (case get_state_id (dict_get0 a ''province_code'')
                                (dict_get0 a ''country_code'') rows of
                           Inl x \<Rightarrow> Inl x
                         | Inr st \<Rightarrow>
                             Inr [(''street'', dict_get a ''address1'' (PStr [])),
                                  (''street2'', dict_get a ''address2'' (PStr [])),
                                  (''city'', dict_get a ''city'' (PStr [])),
                                  (''zip'', dict_get a ''zip'' (PStr [])),
                                  (''country_id'', country),
                                  (''state_id'', st)]))))"

text \<open>The name: first and last name joined by a space and stripped, or else the email.\<close>

definition customer_name :: "pylib \<Rightarrow> dict \<Rightarrow> pyval" where
  "customer_name L customer_data =
     (let n = py_strip (py_str L (dict_get customer_data ''first_name'' (PStr [])) @ '' ''
                        @ py_str L (dict_get customer_data ''last_name'' (PStr [])))
      in if n \<noteq> [] then PStr n else dict_get customer_data ''email'' (PStr ''Unknown''))"

definition prepare_customer_vals :: "pylib \<Rightarrow> dict \<Rightarrow> shop \<Rightarrow> row list \<Rightarrow> exn + dict" where
  "prepare_customer_vals L customer_data inst rows =
     (case dict_item customer_data ''id'' of
        Inl x \<Rightarrow> Inl x
      | Inr cid \<Rightarrow>
          (case py_float L (dict_get customer_data ''total_spent'' (PFloat 0)) of
             Inl x \<Rightarrow> Inl x
           | Inr spent \<Rightarrow>
               (case address_entries customer_data rows of
                  Inl x \<Rightarrow> Inl x
                | Inr address \<Rightarrow>
                    Inr (dict_update address
                      [(''name'', customer_name L customer_data),
                       (''email'', dict_get customer_data ''email'' (PStr [])),
                       (''phone'', dict_get customer_data ''phone'' (PStr [])),
                       (''shopify_instance_id'', PInt (int (inst_id inst))),
                       (''shopify_customer_id'', PStr (py_str L cid)),
                       (''is_shopify_customer'', PBool True),
                       (''shopify_email_verified'',
                          dict_get customer_data ''verified_email'' (PBool False)),
                       (''shopify_accepts_marketing'',
                          dict_get customer_data ''accepts_marketing'' (PBool False)),
                       (''shopify_orders_count'', dict_get customer_data ''orders_count'' (PInt 0)),
                       (''shopify_total_spent'', PFloat spent),
                       (''shopify_state'', dict_get customer_data ''state'' (PStr ''disabled'')),
                       (''shopify_created_at'',
                          parse_shopify_datetime L (dict_get0 customer_data ''created_at'')),
                       (''shopify_updated_at'',
                          parse_shopify_datetime L (dict_get0 customer_data ''updated_at'')),
                       (''customer_rank'', PInt 1)]))))"

text \<open>
  One turn of the fetch loop of \<open>import_shopify_customers\<close>, lines 46 to 71: the
  customers of the page are appended to the list fetched so far. The body of a response
  is an object whose \<open>customers\<close> entry is a list.
\<close>

definition customer_page :: "http_result \<Rightarrow> pyval list \<Rightarrow> env \<Rightarrow> (pyval list) turn" where
  "customer_page resp all_customers e =
     (case resp of
        Inl x \<Rightarrow> Stop (Inl x) e
      | Inr response \<Rightarrow>
          if status_code response \<noteq> 200 then
            Stop (Inl (UserError (''Failed to fetch customers: ''
                    @ str_of_int (status_code response) @ '' - '' @ text_of response))) e
          else
            (case body response of
               None \<Rightarrow> Stop (Inl (ValueError ''response is not JSON'')) e
             | Some data \<Rightarrow>
                 (case as_dict data of
                    Inl x \<Rightarrow> Stop (Inl x) e
                  | Inr d \<Rightarrow>
                      (let customers = dict_get d ''customers'' (PList [])
                       in if \<not> truthy customers then Stop (Inr all_customers) e
                          else
                            (case customers of
                               PList cs \<Rightarrow>
                                 (case next_page_info (link_header response) of
                                    Inl x \<Rightarrow> Stop (Inl x) e
                                  | Inr None \<Rightarrow> Stop (Inr (all_customers @ cs)) e
                                  | Inr (Some t) \<Rightarrow> Again t (all_customers @ cs) e)
                             | _ \<Rightarrow> Stop (Inl (TypeError ''customers is not a list'')) e)))))"

text \<open>
  The loop keeps one \<open>params\<close> dictionary: line 48 adds the cursor to it, next to the
  \<open>limit\<close> it was created with, and every request sends the dictionary as it then is.
\<close>

fun customer_pages ::
  "http_result list \<Rightarrow> pyval \<Rightarrow> dict \<Rightarrow> pyval list \<Rightarrow> dict list \<Rightarrow> env
     \<Rightarrow> ((exn + pyval list) \<times> net \<times> env) option" where
  "customer_pages [] page_info params all_customers reqs e = None"
| "customer_pages (resp # rest) page_info params all_customers reqs e =
     (case customer_page resp all_customers e of
        Stop r e1 \<Rightarrow>
          Some (r, \<lparr>pending = rest,
                     sent = reqs @ [if truthy page_info
                                    then AList.update ''page_info'' page_info params
                                    else params]\<rparr>, e1)
      | Again t all1 e1 \<Rightarrow>
          customer_pages rest (PStr t)
            (if truthy page_info then AList.update ''page_info'' page_info params else params)
            all1
            (reqs @ [if truthy page_info then AList.update ''page_info'' page_info params
                     else params]) e1)"

text \<open>
  Lines 79 to 91: the upsert of one customer. Nothing here is inside a \<open>try\<close> of its own,
  so an exception of the mapping leaves the loop and the import.
\<close>

definition customer_key :: "pylib \<Rightarrow> dict \<Rightarrow> shop \<Rightarrow> dict" where
  "customer_key L customer_data inst =
     [(''shopify_customer_id'', PStr (py_str L (dict_get0 customer_data ''id''))),
      (''shopify_instance_id'', PInt (int (inst_id inst)))]"

definition process_customer ::
  "pylib \<Rightarrow> shop \<Rightarrow> pyval \<Rightarrow> nat \<times> nat \<Rightarrow> env \<Rightarrow> (exn + nat \<times> nat) \<times> env" where
  "process_customer L inst c counts e =
     (case as_dict c of
        Inl x \<Rightarrow> (Inl x, e)
      | Inr customer_data \<Rightarrow>
          (case prepare_customer_vals L customer_data inst (db e) of
             Inl x \<Rightarrow> (Inl x, e)
           | Inr customer_vals \<Rightarrow>
               (case search_first ''res.partner'' (customer_key L customer_data inst) (db e) of
                  Some existing_customer \<Rightarrow>
                    (Inr (fst counts, Suc (snd counts)),
                     e\<lparr>db := orm_write ''res.partner'' [rid existing_customer]
                                 customer_vals (db e)\<rparr>)
                | None \<Rightarrow>
                    (Inr (Suc (fst counts), snd counts),
                     e\<lparr>db := snd (orm_create ''res.partner'' customer_vals (db e))\<rparr>))))"

fun process_customers ::
  "pylib \<Rightarrow> shop \<Rightarrow> pyval list \<Rightarrow> nat \<times> nat \<Rightarrow> env \<Rightarrow> (exn + nat \<times> nat) \<times> env" where
  "process_customers L inst [] counts e = (Inr counts, e)"
| "process_customers L inst (c # all_customers) counts e =
     (case process_customer L inst c counts e of
        (Inl x, e1) \<Rightarrow> (Inl x, e1)
      | (Inr counts1, e1) \<Rightarrow> process_customers L inst all_customers counts1 e1)"

text \<open>\<open>import_shopify_customers\<close>: fetch every page, then upsert every customer; any
  exception is logged and raised again as a \<open>UserError\<close>. The result is (created,
  updated).\<close>

definition import_shopify_customers ::
  "pylib \<Rightarrow> string \<Rightarrow> shop option \<Rightarrow> net \<Rightarrow> env
     \<Rightarrow> ((exn + nat \<times> nat) \<times> net \<times> env) option" where
  "import_shopify_customers L now instance n e =
     (case instance of
        None \<Rightarrow> Some (Inl (UserError ''Shopify instance not found''), n, e)
      | Some inst \<Rightarrow>
          (case customer_pages (pending n) PNone [(''limit'', PInt 250)] [] (sent n) e of
             None \<Rightarrow> None
           | Some (Inl x, n1, e1) \<Rightarrow>
               Some (Inl (UserError (''Error importing customers: '' @ exn_str x)), n1,
                     log_msg ERROR (''Error importing customers: '' @ exn_str x) e1)
           | Some (Inr all_customers, n1, e1) \<Rightarrow>
               (let e2 = log_msg INFO (''Fetched '' @ str_of_nat (length all_customers)
                           @ '' customers from Shopify'') e1
                in case process_customers L inst all_customers (0, 0) e2 of
                     (Inl x, e3) \<Rightarrow>
                       Some (Inl (UserError (''Error importing customers: '' @ exn_str x)), n1,
                             log_msg ERROR (''Error importing customers: '' @ exn_str x) e3)
                   | (Inr counts, e3) \<Rightarrow>
                       Some (Inr counts, n1,
                             e3\<lparr>db := orm_write ''shopify.instance'' [inst_id inst]
                                          [(''last_customer_sync'', PDatetime now)] (db e3)\<rparr>))))"

section \<open>Orders: mapping, lines, \<open>_process_order_batch\<close>, \<open>import_shopify_orders\<close>\<close>

text \<open>
  \<open>_get_or_create_customer\<close>: no customer data gives the public partner (an id known to
  the host application, a parameter here); otherwise the partner found by Shopify id,
  then the one found by email (which is marked as the Shopify customer), then a new
  partner.
\<close>

definition get_or_create_customer ::
  "pylib \<Rightarrow> nat \<Rightarrow> pyval \<Rightarrow> shop \<Rightarrow> env \<Rightarrow> (exn + nat) \<times> env" where
  "get_or_create_customer L public_partner customer_data inst e =
     (if \<not> truthy customer_data then (Inr public_partner, e)
      else
        (case as_dict customer_data of
           Inl x \<Rightarrow> (Inl x, e)
         | Inr c \<Rightarrow>
             (let by_id =
                    (if truthy (dict_get0 c ''id'') then
                       search_first ''res.partner''
                         [(''shopify_customer_id'', PStr (py_str L (dict_get0 c ''id''))),
                          (''shopify_instance_id'', PInt (int (inst_id inst)))] (db e)
                     else None);
                  by_email =
                    (if truthy (dict_get0 c ''email'') then
                       search_first ''res.partner'' [(''email'', dict_get0 c ''email'')] (db e)
                     else None)
              in case by_id of
                   Some partner \<Rightarrow> (Inr (rid partner), e)
                 | None \<Rightarrow>
                     (case by_email of
                        Some partner \<Rightarrow>
                          (case dict_item c ''id'' of
                             Inl x \<Rightarrow> (Inl x, e)
                           | Inr cid \<Rightarrow>
                               (Inr (rid partner),
                                e\<lparr>db := orm_write ''res.partner'' [rid partner]
                                            [(''shopify_customer_id'', PStr (py_str L cid)),
                                             (''shopify_instance_id'', PInt (int (inst_id inst))),
                                             (''is_shopify_customer'', PBool True)] (db e)\<rparr>))
                      | None \<Rightarrow>
                          (case prepare_customer_vals L c inst (db e) of
                             Inl x \<Rightarrow> (Inl x, e)
                           | Inr customer_vals \<Rightarrow>
                               (Inr (fst (orm_create ''res.partner'' customer_vals (db e))),
                                e\<lparr>db := snd (orm_create ''res.partner'' customer_vals
                                                  (db e))\<rparr>))))))"

text \<open>\<open>_get_or_create_shipping_address\<close>: the delivery address of the partner with the same
  street, or a new one.\<close>

definition get_or_create_shipping_address ::
  "pylib \<Rightarrow> dict \<Rightarrow> nat \<Rightarrow> env \<Rightarrow> (exn + nat) \<times> env" where
  "get_or_create_shipping_address L shipping_address parent e =
     (case search_first ''res.partner''
             [(''parent_id'', PInt (int parent)), (''type'', PStr ''delivery''),
              (''street'', dict_get shipping_address ''address1'' (PStr []))] (db e) of
        Some existing \<Rightarrow> (Inr (rid existing), e)
      | None \<Rightarrow>
          (case get_country_id (dict_get0 shipping_address ''country_code'') (db e) of
             Inl x \<Rightarrow> (Inl x, e)
           | Inr country \<Rightarrow>
               (case get_state_id (dict_get0 shipping_address ''province_code'')
                       (dict_get0 shipping_address ''country_code'') (db e) of
                  Inl x \<Rightarrow> (Inl x, e)
                | Inr st \<Rightarrow>
                    (let n = py_strip (py_str L (dict_get shipping_address ''first_name'' (PStr []))
                               @ '' '' @ py_str L (dict_get shipping_address ''last_name'' (PStr [])));
                         parent_name = (case browse ''res.partner'' parent (db e) of
                                          None \<Rightarrow> PBool False | Some p \<Rightarrow> fld p ''name'');
                         vals = [(''parent_id'', PInt (int parent)),
                                 (''type'', PStr ''delivery''),
                                 (''name'', if n \<noteq> [] then PStr n else parent_name),
                                 (''street'', dict_get shipping_address ''address1'' (PStr [])),
                                 (''street2'', dict_get shipping_address ''address2'' (PStr [])),
                                 (''city'', dict_get shipping_address ''city'' (PStr [])),
                                 (''zip'', dict_get shipping_address ''zip'' (PStr [])),
                                 (''phone'', dict_get shipping_address ''phone'' (PStr [])),
                                 (''country_id'', country),
                                 (''state_id'', st)]
                     in (Inr (fst (orm_create ''res.partner'' vals (db e))),
                         e\<lparr>db := snd (orm_create ''res.partner'' vals (db e))\<rparr>)))))"

text \<open>\<open>sum(float(line.get('price', 0.0)) for line in shipping_lines)\<close>.\<close>

fun shipping_total :: "pylib \<Rightarrow> pyval list \<Rightarrow> exn + real" where
  "shipping_total L [] = Inr 0"
| "shipping_total L (l # ls) =
     (case as_dict l of
        Inl x \<Rightarrow> Inl x
      | Inr d \<Rightarrow>
          (case py_float L (dict_get d ''price'' (PFloat 0)) of
             Inl x \<Rightarrow> Inl x
           | Inr p \<Rightarrow> (case shipping_total L ls of Inl x \<Rightarrow> Inl x | Inr t \<Rightarrow> Inr (p + t))))"

text \<open>Lines 176 to 195 of order.py: the header values that need no search. The
  \<open>shipping_lines\<close> entry is a list.\<close>

definition order_header :: "pylib \<Rightarrow> dict \<Rightarrow> shop \<Rightarrow> nat \<Rightarrow> exn + dict" where
  "order_header L order_data inst customer =
     (case dict_item order_data ''id'' of
        Inl x \<Rightarrow> Inl x
      | Inr oid \<Rightarrow>
          (case py_float L (dict_get order_data ''total_tax'' (PFloat 0)) of
             Inl x \<Rightarrow> Inl x
           | Inr tax \<Rightarrow>
               (case (case dict_get order_data ''shipping_lines'' (PList []) of
                        PList ls \<Rightarrow> shipping_total L ls
                      | _ \<Rightarrow> Inl (TypeError ''object is not iterable'')) of
                  Inl x \<Rightarrow> Inl x
                | Inr shipping \<Rightarrow>
                    Inr [(''partner_id'', PInt (int customer)),
                         (''shopify_instance_id'', PInt (int (inst_id inst))),
                         (''shopify_order_id'', PStr (py_str L oid)),
                         (''shopify_order_number'',
                            PStr (py_str L (dict_get order_data ''order_number'' (PStr [])))),
                         (''is_shopify_order'', PBool True),
                         (''shopify_financial_status'',
                            dict_get order_data ''financial_status'' (PStr ''pending'')),
                         (''shopify_fulfillment_status'',
                            (if truthy (dict_get0 order_data ''fulfillment_status'')
                             then dict_get0 order_data ''fulfillment_status''
                             else PStr ''unfulfilled'')),
                         (''shopify_total_tax'', PFloat tax),
                         (''shopify_total_shipping'', PFloat shipping),
                         (''shopify_currency'', dict_get order_data ''currency'' (PStr ''USD'')),
                         (''shopify_created_at'',
                            parse_shopify_datetime L (dict_get0 order_data ''created_at'')),
                         (''shopify_updated_at'',
                            parse_shopify_datetime L (dict_get0 order_data ''updated_at'')),
                         (''shopify_closed_at'',
                            parse_shopify_datetime L (dict_get0 order_data ''closed_at'')),
                         (''shopify_cancelled_at'',
                            parse_shopify_datetime L (dict_get0 order_data ''cancelled_at'')),
                         (''shopify_cancel_reason'', dict_get order_data ''cancel_reason'' (PStr [])),
                         (''client_order_ref'', dict_get order_data ''name'' (PStr [])),
                         (''note'', dict_get order_data ''note'' (PStr [])),
                         (''date_order'',
                            parse_shopify_datetime L (dict_get0 order_data ''created_at''))])))"

text \<open>Lines 197 to 210: the currency and the price list.\<close>

definition currency_entries :: "dict \<Rightarrow> shop \<Rightarrow> row list \<Rightarrow> dict" where
  "currency_entries order_data inst rows =
     (case inst_currency inst of
        Some c \<Rightarrow>
          [(''currency_id'', PInt (int c))]
          @ (case search_first ''product.pricelist'' [(''currency_id'', PInt (int c))] rows of
               None \<Rightarrow> [] | Some pricelist \<Rightarrow> [(''pricelist_id'', PInt (int (rid pricelist)))])
      | None \<Rightarrow>
          (case search_first ''res.currency''
                  [(''name'', dict_get order_data ''currency'' (PStr ''USD''))] rows of
             None \<Rightarrow> [] | Some currency \<Rightarrow> [(''currency_id'', PInt (int (rid currency)))]))"

text \<open>
  \<open>_prepare_order_vals\<close>. It is not a pure mapping: the customer and the shipping address
  are looked up and created on the way, and what was created stays when a later entry
  raises.
\<close>

definition prepare_order_vals ::
  "pylib \<Rightarrow> nat \<Rightarrow> dict \<Rightarrow> shop \<Rightarrow> env \<Rightarrow> (exn + dict) \<times> env" where
  "prepare_order_vals L public_partner order_data inst e =
     (case get_or_create_customer L public_partner
             (dict_get order_data ''customer'' (PDict [])) inst e of
        (Inl x, e1) \<Rightarrow> (Inl x, e1)
      | (Inr customer, e1) \<Rightarrow>
          (case order_header L order_data inst customer of
             Inl x \<Rightarrow> (Inl x, e1)
           | Inr header \<Rightarrow>
               (let vals = header @ currency_entries order_data inst (db e1);
                    shipping_address = dict_get0 order_data ''shipping_address''
                in if \<not> truthy shipping_address then (Inr vals, e1)
                   else
                     (case as_dict shipping_address of
                        Inl x \<Rightarrow> (Inl x, e1)
                      | Inr a \<Rightarrow>
                          (case get_or_create_shipping_address L a customer e1 of
                             (Inl x, e2) \<Rightarrow> (Inl x, e2)
                           | (Inr shipping_partner, e2) \<Rightarrow>
                               (Inr (vals @ [(''partner_shipping_id'',
                                               PInt (int shipping_partner))]), e2))))))"

text \<open>
  \<open>_get_or_create_product\<close>: the product of a line item, by Shopify product id, then by
  SKU, or else a product created on the spot. The template stands for its one variant.
  Since \<open>create\<close> is total in this model, a product always comes back, and the generic
  product of \<open>_create_generic_product\<close> is never needed.
\<close>

definition line_price :: "pylib \<Rightarrow> dict \<Rightarrow> exn + real" where
  "line_price L line_item =
     (let price = dict_get line_item ''price'' (PStr ''0'')
      in if truthy price then py_float L price else Inr 0)"

definition first_truthy :: "pyval list \<Rightarrow> pyval \<Rightarrow> pyval" where
  "first_truthy vs dflt = (case filter truthy vs of [] \<Rightarrow> dflt | v # rest \<Rightarrow> v)"

definition get_or_create_product ::
  "pylib \<Rightarrow> dict \<Rightarrow> pyval \<Rightarrow> env \<Rightarrow> (exn + nat) \<times> env" where
  "get_or_create_product L line_item instance_id e =
     (let product_id = dict_get0 line_item ''product_id'';
          sku = dict_get0 line_item ''sku'';
          by_id = (if truthy product_id then
                     search_first ''product.template''
                       [(''shopify_product_id'', PStr (py_str L product_id)),
                        (''shopify_instance_id'', instance_id)] (db e)
                   else None);
          by_sku = (if truthy sku then
                      search_first ''product.template'' [(''default_code'', sku)] (db e)
                    else None)
      in case by_id of
           Some product \<Rightarrow> (Inr (rid product), e)
         | None \<Rightarrow>
             (case by_sku of
                Some product \<Rightarrow> (Inr (rid product), e)
              | None \<Rightarrow>
                  (case line_price L line_item of
                     Inl x \<Rightarrow> (Inl x, e)
                   | Inr price \<Rightarrow>
                       (let product_vals =
                              [(''name'', first_truthy [dict_get0 line_item ''title'',
                                            dict_get0 line_item ''name''] (PStr ''Unknown Product'')),
                               (''default_code'', if truthy sku then sku else PStr []),
                               (''list_price'', PFloat price),
                               (''type'', PStr ''consu''),
                               (''shopify_instance_id'', instance_id),
                               (''shopify_product_id'',
                                  if truthy product_id then PStr (py_str L product_id)
                                  else PBool False),
                               (''is_shopify_product'', PBool True)]
                        in (Inr (fst (orm_create ''product.template'' product_vals (db e))),
                            log_msg INFO ''Created product from order line''
                              (e\<lparr>db := snd (orm_create ''product.template'' product_vals
                                                (db e))\<rparr>))))))"

text \<open>
  One line item of \<open>_create_order_lines\<close>, lines 291 to 331: inside the \<open>try\<close>, the product,
  the price and the quantity, then the line is created; the handler logs the item's
  title and goes on. On an item that is no dictionary the handler's own \<open>get\<close> raises,
  and that exception leaves \<open>_create_order_lines\<close>.
\<close>

definition create_order_line ::
  "pylib \<Rightarrow> nat \<Rightarrow> pyval \<Rightarrow> pyval \<Rightarrow> env \<Rightarrow> exn option \<times> env" where
  "create_order_line L order instance_id item e =
     (case as_dict item of
        Inl x \<Rightarrow> (Some x, e)
      | Inr line_item \<Rightarrow>
          (case get_or_create_product L line_item instance_id e of
             (Inl x, e1) \<Rightarrow>
               (None, log_msg ERROR (''Error creating order line for ''
                        @ py_str L (dict_get0 line_item ''title'') @ '': '' @ exn_str x) e1)
           | (Inr product, e1) \<Rightarrow>
               (case line_price L line_item of
                  Inl x \<Rightarrow>
                    (None, log_msg ERROR (''Error creating order line for ''
                             @ py_str L (dict_get0 line_item ''title'') @ '': '' @ exn_str x) e1)
                | Inr price \<Rightarrow>
                    (case (let quantity = dict_get line_item ''quantity'' (PInt 1)
                           in if truthy quantity then py_float L quantity else Inr 1) of
                       Inl x \<Rightarrow>
                         (None, log_msg ERROR (''Error creating order line for ''
                                  @ py_str L (dict_get0 line_item ''title'') @ '': ''
                                  @ exn_str x) e1)
                     | Inr quantity \<Rightarrow>
                         (let product_name = (case browse ''product.template'' product (db e1) of
                                                None \<Rightarrow> PBool False | Some p \<Rightarrow> fld p ''name'');
                              line_vals =
                                [(''order_id'', PInt (int order)),
                                 (''product_id'', PInt (int product)),
                                 (''name'', first_truthy [dict_get0 line_item ''title'',
                                              dict_get0 line_item ''name''] product_name),
                                 (''product_uom_qty'', PFloat quantity),
                                 (''price_unit'', PFloat price)]
                          in (None,
                              log_msg INFO (''Created order line: ''
                                @ py_str L (dict_get0 line_item ''title''))
                                (e1\<lparr>db := snd (orm_create ''sale.order.line'' line_vals
                                                   (db e1))\<rparr>)))))))"

fun create_lines :: "pylib \<Rightarrow> nat \<Rightarrow> pyval \<Rightarrow> pyval list \<Rightarrow> env \<Rightarrow> exn option \<times> env" where
  "create_lines L order instance_id [] e = (None, e)"
| "create_lines L order instance_id (item # line_items) e =
     (case create_order_line L order instance_id item e of
        (Some x, e1) \<Rightarrow> (Some x, e1)
      | (None, e1) \<Rightarrow> create_lines L order instance_id line_items e1)"

text \<open>\<open>_create_order_lines\<close>; the instance is read from the order. The \<open>line_items\<close> entry
  is a list: the \<open>len\<close> of line 289 raises on a value without a length.\<close>

definition create_order_lines :: "pylib \<Rightarrow> nat \<Rightarrow> pyval \<Rightarrow> env \<Rightarrow> exn option \<times> env" where
  "create_order_lines L order line_items e =
     (case line_items of
        PList items \<Rightarrow>
          create_lines L order
            (case browse ''sale.order'' order (db e) of
               None \<Rightarrow> PBool False | Some r \<Rightarrow> fld r ''shopify_instance_id'')
            items
            (log_msg INFO (''Creating order lines, line_items count: ''
               @ str_of_nat (length items)) e)
      | _ \<Rightarrow> (Some (TypeError ''object has no len()''), e))"

definition order_key :: "pylib \<Rightarrow> dict \<Rightarrow> shop \<Rightarrow> dict" where
  "order_key L order_data inst =
     [(''shopify_order_id'', PStr (py_str L (dict_get0 order_data ''id''))),
      (''shopify_instance_id'', PInt (int (inst_id inst)))]"

definition order_lines :: "nat \<Rightarrow> row list \<Rightarrow> row list" where
  "order_lines order rows = search_all ''sale.order.line'' [(''order_id'', PInt (int order))] rows"

text \<open>
  The body of the \<open>try\<close> of \<open>_process_order_batch\<close>, lines 134 to 152: \<open>Inl\<close> is the
  exception the handler of line 154 catches.
\<close>

definition upsert_order ::
  "pylib \<Rightarrow> nat \<Rightarrow> shop \<Rightarrow> dict \<Rightarrow> nat \<times> nat \<Rightarrow> env \<Rightarrow> (exn + nat \<times> nat) \<times> env" where
  "upsert_order L public_partner inst order_data counts e =
     (case prepare_order_vals L public_partner order_data inst e of
        (Inl x, e1) \<Rightarrow> (Inl x, e1)
      | (Inr order_vals, e1) \<Rightarrow>
          (case search_first ''sale.order'' (order_key L order_data inst) (db e1) of
             Some existing_order \<Rightarrow>
               if fld existing_order ''state'' = PStr ''draft''
                  \<or> fld existing_order ''state'' = PStr ''sent'' then
                 (let e2 = e1\<lparr>db := orm_write ''sale.order'' [rid existing_order] order_vals
                                       (db e1)\<rparr>
                  in if order_lines (rid existing_order) (db e2) = [] then
                       (case create_order_lines L (rid existing_order)
                               (dict_get order_data ''line_items'' (PList [])) e2 of
                          (Some x, e3) \<Rightarrow> (Inl x, e3)
                        | (None, e3) \<Rightarrow> (Inr (fst counts, Suc (snd counts)), e3))
                     else (Inr (fst counts, Suc (snd counts)), e2))
               else (Inr counts, e1)
           | None \<Rightarrow>
               (let new_order = fst (orm_create ''sale.order'' order_vals (db e1));
                    e2 = e1\<lparr>db := snd (orm_create ''sale.order'' order_vals (db e1))\<rparr>
                in case create_order_lines L new_order
                          (dict_get order_data ''line_items'' (PList [])) e2 of
                     (Some x, e3) \<Rightarrow> (Inl x, e3)
                   | (None, e3) \<Rightarrow> (Inr (Suc (fst counts), snd counts), e3))))"

text \<open>One order of the batch: the handler logs the order's id with \<open>order_data.get\<close>, which
  raises on a record that is no dictionary.\<close>

definition process_order ::
  "pylib \<Rightarrow> nat \<Rightarrow> shop \<Rightarrow> pyval \<Rightarrow> nat \<times> nat \<Rightarrow> env \<Rightarrow> (exn + nat \<times> nat) \<times> env" where
  "process_order L public_partner inst p counts e =
     (case as_dict p of
        Inl x \<Rightarrow> (Inl x, e)
      | Inr order_data \<Rightarrow>
          (case upsert_order L public_partner inst order_data counts e of
             (Inl x, e1) \<Rightarrow>
               (Inr counts,
                log_msg ERROR (''Error processing order ''
                  @ py_str L (dict_get0 order_data ''id'') @ '': '' @ exn_str x) e1)
           | (Inr counts1, e1) \<Rightarrow> (Inr counts1, e1)))"

fun process_order_batch ::
  "pylib \<Rightarrow> nat \<Rightarrow> shop \<Rightarrow> pyval list \<Rightarrow> nat \<times> nat \<Rightarrow> env \<Rightarrow> (exn + nat \<times> nat) \<times> env" where
  "process_order_batch L public_partner inst [] counts e = (Inr counts, e)"
| "process_order_batch L public_partner inst (p # orders_batch) counts e =
     (case process_order L public_partner inst p counts e of
        (Inl x, e1) \<Rightarrow> (Inl x, e1)
      | (Inr counts1, e1) \<Rightarrow> process_order_batch L public_partner inst orders_batch counts1 e1)"

text \<open>
  Lines 87 to 95 of order.py: every batch goes through \<open>_process_order_batch\<close> and a
  commit. Nothing here is inside a \<open>try\<close> of its own: an exception of the batch or of the
  commit leaves the loop.
\<close>

fun order_batches ::
  "pylib \<Rightarrow> nat \<Rightarrow> shop \<Rightarrow> pyval list list \<Rightarrow> nat \<times> nat \<Rightarrow> env \<Rightarrow> (exn + nat \<times> nat) \<times> env" where
  "order_batches L public_partner inst [] counts e = (Inr counts, e)"
| "order_batches L public_partner inst (batch # rest) counts e =
     (case process_order_batch L public_partner inst batch (0, 0) e of
        (Inl x, e1) \<Rightarrow> (Inl x, e1)
      | (Inr batch_counts, e1) \<Rightarrow>
          (case cr_commit e1 of
             (Some x, e2) \<Rightarrow> (Inl x, e2)
           | (None, e2) \<Rightarrow>
               order_batches L public_partner inst rest
                 (fst counts + fst batch_counts, snd counts + snd batch_counts)
                 (log_msg INFO (''Batch processed: Created '' @ str_of_nat (fst batch_counts)
                    @ '', Updated '' @ str_of_nat (snd batch_counts)) e2)))"

text \<open>One turn of the \<open>while True\<close> loop of \<open>import_shopify_orders\<close>, lines 64 to 106.\<close>

definition order_page ::
  "pylib \<Rightarrow> nat \<Rightarrow> nat \<Rightarrow> shop \<Rightarrow> http_result \<Rightarrow> nat \<Rightarrow> nat \<times> nat \<times> nat \<Rightarrow> env
     \<Rightarrow> (nat \<times> nat \<times> nat) turn" where
  "order_page L public_partner batch_size inst resp page_number acc e =
     (let e0 = log_msg INFO (''Fetching orders page '' @ str_of_nat page_number @ ''...'') e
      in case resp of
           Inl x \<Rightarrow> Stop (Inl x) e0
         | Inr response \<Rightarrow>
             if status_code response \<noteq> 200 then
               Stop (Inl (UserError (''Failed to fetch orders: ''
                       @ str_of_int (status_code response) @ '' - '' @ text_of response))) e0
             else
               (case body response of
                  None \<Rightarrow> Stop (Inl (ValueError ''response is not JSON'')) e0
                | Some data \<Rightarrow>
                    (case as_dict data of
                       Inl x \<Rightarrow> Stop (Inl x) e0
                     | Inr d \<Rightarrow>
                         (let orders = dict_get d ''orders'' (PList [])
                          in if \<not> truthy orders then Stop (Inr acc) e0
                             else
                               (case orders of
                                  PList os \<Rightarrow>
                                    if batch_size = 0 then
                                      Stop (Inl (ValueError ''range() arg 3 must not be zero'')) e0
                                    else
                                      (case order_batches L public_partner inst
                                              (chunks batch_size os) (snd acc)
                                              (log_msg INFO (''Page '' @ str_of_nat page_number
                                                 @ '': Fetched '' @ str_of_nat (length os)
                                                 @ '' orders'') e0) of
                                         (Inl x, e1) \<Rightarrow> Stop (Inl x) e1
                                       | (Inr counts, e1) \<Rightarrow>
                                           (case next_page_info (link_header response) of
                                              Inl x \<Rightarrow> Stop (Inl x) e1
                                            | Inr None \<Rightarrow>
                                                Stop (Inr (fst acc + length os, counts)) e1
                                            | Inr (Some t) \<Rightarrow>
                                                Again t (fst acc + length os, counts) e1))
                                | _ \<Rightarrow> Stop (Inl (TypeError ''orders is not a list'')) e0)))))"

fun order_pages ::
  "pylib \<Rightarrow> nat \<Rightarrow> nat \<Rightarrow> shop \<Rightarrow> dict \<Rightarrow> http_result list \<Rightarrow> pyval \<Rightarrow> nat
     \<Rightarrow> nat \<times> nat \<times> nat \<Rightarrow> dict list \<Rightarrow> env
     \<Rightarrow> ((exn + nat \<times> nat \<times> nat) \<times> net \<times> env) option" where
  "order_pages L public_partner batch_size inst params [] page_info page_number acc reqs e = None"
| "order_pages L public_partner batch_size inst params (resp # rest) page_info page_number acc
     reqs e =
     (case order_page L public_partner batch_size inst resp page_number acc e of
        Stop r e1 \<Rightarrow>
          Some (r, \<lparr>pending = rest, sent = reqs @ [request_params params page_info]\<rparr>, e1)
      | Again t acc1 e1 \<Rightarrow>
          order_pages L public_partner batch_size inst params rest (PStr t) (Suc page_number)
            acc1 (reqs @ [request_params params page_info]) e1)"

text \<open>
  \<open>import_shopify_orders\<close>; \<open>date_from\<close> is the ISO text of the date, if one is given.
  The result is (total fetched, created, updated).
\<close>

definition import_shopify_orders ::
  "pylib \<Rightarrow> nat \<Rightarrow> string \<Rightarrow> shop option \<Rightarrow> string option \<Rightarrow> nat \<Rightarrow> net \<Rightarrow> env
     \<Rightarrow> ((exn + nat \<times> nat \<times> nat) \<times> net \<times> env) option" where
  "import_shopify_orders L public_partner now instance date_from batch_size n e =
     (case instance of
        None \<Rightarrow> Some (Inl (UserError ''Shopify instance not found''), n, e)
      | Some inst \<Rightarrow>
          (case order_pages L public_partner batch_size inst
                  ([(''limit'', PInt 250), (''status'', PStr ''any'')]
                   @ (case date_from of None \<Rightarrow> [] | Some d \<Rightarrow> [(''created_at_min'', PStr d)]))
                  (pending n) PNone 1 (0, 0, 0) (sent n) e of
             None \<Rightarrow> None
           | Some (Inl x, n1, e1) \<Rightarrow>
               Some (Inl (UserError (''Error importing orders: '' @ exn_str x)), n1,
                     log_msg ERROR (''Error importing orders: '' @ exn_str x) e1)
           | Some (Inr acc, n1, e1) \<Rightarrow>
               (let e2 = log_msg INFO (''Total orders processed: '' @ str_of_nat (fst acc)) e1
                in Some (Inr acc, n1,
                         e2\<lparr>db := orm_write ''shopify.instance'' [inst_id inst]
                                      [(''last_order_sync'', PDatetime now)] (db e2)\<rparr>))))"

section \<open>The order webhook: \<open>_process_order_webhook\<close>\<close>

text \<open>
  The handler of \<open>orders/create\<close> and \<open>orders/updated\<close>, lines 192 to 206 of webhook.py:
  the header values, the search by (order id, instance), then a write or a create. Any
  other topic does nothing. An exception leaves the handler.
\<close>

definition process_order_webhook ::
  "pylib \<Rightarrow> nat \<Rightarrow> string \<Rightarrow> dict \<Rightarrow> shop \<Rightarrow> env \<Rightarrow> exn option \<times> env" where
  "process_order_webhook L public_partner topic data inst e =
     (if topic = ''orders/create'' \<or> topic = ''orders/updated'' then
        (case prepare_order_vals L public_partner data inst e of
           (Inl x, e1) \<Rightarrow> (Some x, e1)
         | (Inr order_vals, e1) \<Rightarrow>
             (case search_first ''sale.order'' (order_key L data inst) (db e1) of
                Some existing_order \<Rightarrow>
                  (None, e1\<lparr>db := orm_write ''sale.order'' [rid existing_order] order_vals
                                      (db e1)\<rparr>)
              | None \<Rightarrow>
                  (None, e1\<lparr>db := snd (orm_create ''sale.order'' order_vals (db e1))\<rparr>)))
      else (None, e))"

section \<open>Rows under a key\<close>

text \<open>
  The rows of a model that hold a key, the values of a search domain, whether archived or
  not, and their number.
\<close>

definition holds_key :: "string \<Rightarrow> dict \<Rightarrow> row \<Rightarrow> bool" where
  "holds_key m dmn r = (model r = m \<and> matches dmn r)"

definition keyed_rows :: "string \<Rightarrow> dict \<Rightarrow> env \<Rightarrow> nat" where
  "keyed_rows m dmn e = length (filter (holds_key m dmn) (db e))"

section \<open>The rows of a model\<close>

text \<open>The rows of one model, in the order of the database; for \<open>sale.order.line\<close>, the
  order lines.\<close>

definition rows_of :: "string \<Rightarrow> row list \<Rightarrow> row list" where
  "rows_of m rows = filter (\<lambda>r. model r = m) rows"

section \<open>Sample inputs\<close>

definition demo_lib :: pylib where
  "demo_lib = \<lparr>float_of_str = (\<lambda>s. if s = ''-15.0'' then Some (- 15) else if s = ''19.99'' then Some (1999 / 100) else None),
               int_of_str = (\<lambda>s. if s = ''2'' then Some 2 else None),
               date_parse = (\<lambda>s. if s = [] then None else Some s),
               repr_of = (\<lambda>v. ''?'')\<rparr>"

definition demo_sched :: "nat \<Rightarrow> bool \<Rightarrow> row" where
  "demo_sched i running =
     \<lparr>model = ''shopify.scheduler'', rid = i,
      flds = [(''name'', PStr ''Nightly''), (''shopify_instance_id'', PInt 1),
              (''is_running'', PBool running),
              (''sync_products'', PBool True), (''sync_customers'', PBool True)]\<rparr>"

definition demo_env :: "row list \<Rightarrow> env" where
  "demo_env rows = \<lparr>db = rows, committed = rows, logs = [], commit_faults = []\<rparr>"


definition demo_params :: run_params where
  "demo_params =
     \<lparr>rp_lib = demo_lib,
      rp_ops = (\<lambda>k inst e. if k = Products then (Some (UserError ''timeout''), e) else (None, e)),
      rp_now = ''2024-01-01 00:00:00'',
      rp_mark_fault = None,
      rp_fault = None,
      rp_handler_fault = None\<rparr>"

definition demo_storage_down :: run_params where
  "demo_storage_down =
     demo_params\<lparr>rp_fault := Some (StorageError ''transaction aborted''),
                  rp_handler_fault := Some (StorageError ''transaction aborted'')\<rparr>"

definition demo_shop :: shop where
  "demo_shop = \<lparr>inst_id = 1, inst_currency = None\<rparr>"

definition demo_price_rule :: dict where
  "demo_price_rule =
     [(''id'', PInt 7), (''title'', PStr ''Summer''), (''value'', PStr ''-15.0''),
      (''value_type'', PStr ''percentage'')]"

definition demo_page :: "string \<Rightarrow> pyval list \<Rightarrow> string \<Rightarrow> http_result" where
  "demo_page key records link =
     Inr \<lparr>status_code = 200, text_of = [], body = Some (PDict [(key, PList records)]),
          link_header = link\<rparr>"

definition demo_next_link :: string where
  "demo_next_link = ''<https://s/x.json?page_info=abc>; '' @ rel_next"

definition demo_order :: "int \<Rightarrow> pyval" where
  "demo_order i = PDict [(''id'', PInt i), (''note'', PStr ''gift'')]"

definition demo_confirmed_order :: row where
  "demo_confirmed_order =
     \<lparr>model = ''sale.order'', rid = 1,
      flds = [(''state'', PStr ''sale''), (''shopify_order_id'', PStr ''7''),
              (''shopify_instance_id'', PInt 1), (''note'', PStr ''as confirmed'')]\<rparr>"





section \<open>Properties\<close>

subsection \<open>Dictionaries and rows\<close>

lemma map_of_dict_update: "map_of (dict_update vals d) = map_of d ++ map_of (rev vals)"
  unfolding dict_update_def
proof (induction vals arbitrary: d)
  case Nil
  then show ?case by simp
next
  case (Cons a vals)
  obtain k v where a: "a = (k, v)" by (cases a)
  have "map_of (fold (\<lambda>(k, v). AList.update k v) vals (AList.update k v d))
        = map_of (AList.update k v d) ++ map_of (rev vals)"
    using Cons.IH by simp
  also have "\<dots> = map_of d ++ map_of (rev vals @ [(k, v)])"
    by (simp add: update_conv' map_add_upd_left fun_eq_iff map_add_def split: option.splits)
  finally show ?case by (simp add: a)
qed

lemma fld_write1: "fld (r\<lparr>flds := dict_update [(k, v)] (flds r)\<rparr>) k = v"
  by (simp add: fld_def dict_get_def map_of_dict_update)



lemma fold_max_ge: "(a::nat) \<le> fold max xs a"
  by (induction xs arbitrary: a) (auto intro: order_trans [OF max.cobounded2])

lemma fold_max_mem: "x \<in> set xs \<Longrightarrow> (x::nat) \<le> fold max xs a"
proof (induction xs arbitrary: a)
  case Nil
  then show ?case by simp
next
  case (Cons y ys)
  show ?case
  proof (cases "x = y")
    case True
    have "y \<le> max y a" by simp
    also have "\<dots> \<le> fold max ys (max y a)" by (rule fold_max_ge)
    finally show ?thesis using True by simp
  next
    case False
    with Cons show ?thesis by simp
  qed
qed

lemma next_id_fresh: "r \<in> set rows \<Longrightarrow> model r = m \<Longrightarrow> rid r < next_id m rows"
  unfolding next_id_def by (auto intro!: le_imp_less_Suc fold_max_mem)

lemma browse_next_id: "browse m (next_id m rows) rows = None"
  unfolding browse_def find_None_iff using next_id_fresh by fastforce

lemma browse_append:
  "browse m i (rows @ [r]) =
     (case browse m i rows of Some x \<Rightarrow> Some x
      | None \<Rightarrow> if model r = m \<and> rid r = i then Some r else None)"
  unfolding browse_def by (induction rows) auto

lemma browse_orm_create:
  "browse m (fst (orm_create m vals rows)) (snd (orm_create m vals rows))
     = Some \<lparr>model = m, rid = next_id m rows, flds = dict_update vals (defaults m)\<rparr>"
  by (simp add: orm_create_def Let_def browse_append browse_next_id)

lemma search_first_browse:
  "search_first m dmn rows = Some r \<Longrightarrow> browse m (rid r) rows \<noteq> None"
  unfolding search_first_def browse_def find_None_iff
  by (auto simp: find_Some_iff found_def dest: nth_mem)

lemma map_of_rev_append_notin:
  "k \<notin> fst ` set ys \<Longrightarrow> map_of (rev (xs @ ys)) k = map_of (rev xs) k"
  by (simp add: map_add_def map_of_eq_None_iff [THEN iffD2] split: option.splits)

lemma browse_orm_write:
  "browse m i (orm_write m [i] vals rows)
     = map_option (\<lambda>r. r\<lparr>flds := dict_update vals (flds r)\<rparr>) (browse m i rows)"
  by (induction rows) (auto simp: browse_def orm_write_def)

lemma fld_dict_update:
  "map_of (rev vals) k = Some v \<Longrightarrow> dict_get (dict_update vals d) k dflt = v"
  by (simp add: dict_get_def map_of_dict_update)

subsection \<open>Discount values\<close>

lemma sub_keys:
  "prerequisite_subtotal_entry L d = Inr xs \<Longrightarrow> fst ` set xs \<subseteq> {''prerequisite_subtotal_range''}"
  by (auto simp: prerequisite_subtotal_entry_def Let_def split: if_splits sum.splits)

lemma qty_keys:
  "prerequisite_quantity_entry L d = Inr xs \<Longrightarrow> fst ` set xs \<subseteq> {''prerequisite_quantity_range''}"
  by (auto simp: prerequisite_quantity_entry_def Let_def split: if_splits sum.splits)

lemma entitled_keys: "entitled_entry L d k = Inr xs \<Longrightarrow> fst ` set xs \<subseteq> {k}"
  by (auto simp: entitled_entry_def Let_def split: if_splits sum.splits)

lemma date_entry_cases: "date_entry L d k f = [] \<or> (\<exists>x. date_entry L d k f = [(f, x)])"
proof (cases "dict_get0 d k")
  case (PStr s)
  then show ?thesis by (cases "date_parse L s") (simp_all add: date_entry_def)
qed (simp_all add: date_entry_def)

lemma date_keys: "fst ` set (date_entry L d k f) \<subseteq> {f}"
  using date_entry_cases [of L d k f] by auto

lemma discount_vals_value:
  assumes "discount_vals L cc code data inst = Inr vals" "discount_value L data = Inr v"
  shows "map_of (rev vals) ''value'' = Some (PFloat v)
       \<and> map_of (rev vals) ''value_type'' = Some (dict_get data ''value_type'' (PStr ''percentage''))"
proof -
  from assms obtain sub qty prods colls where
    s: "prerequisite_subtotal_entry L data = Inr sub"
    and q: "prerequisite_quantity_entry L data = Inr qty"
    and p: "entitled_entry L data ''entitled_product_ids'' = Inr prods"
    and c: "entitled_entry L data ''entitled_collection_ids'' = Inr colls"
    by (auto simp: discount_vals_def Let_def split: sum.splits)
  let ?opt = "sub @ qty @ prods @ colls
          @ date_entry L data ''starts_at'' ''starts_at''
          @ date_entry L data ''ends_at'' ''ends_at''
          @ date_entry L data ''created_at'' ''shopify_created_at''
          @ date_entry L data ''updated_at'' ''shopify_updated_at''"
  note k = sub_keys [OF s] qty_keys [OF q] entitled_keys [OF p] entitled_keys [OF c]
    date_keys [of L data "''starts_at''" "''starts_at''"]
    date_keys [of L data "''ends_at''" "''ends_at''"]
    date_keys [of L data "''created_at''" "''shopify_created_at''"]
    date_keys [of L data "''updated_at''" "''shopify_updated_at''"]
  have n1: "''value'' \<notin> fst ` set ?opt" using k by (auto simp: image_Un)
  have n2: "''value_type'' \<notin> fst ` set ?opt" using k by (auto simp: image_Un)
  let ?base = "[(''name'', dict_get data ''title'' (PStr ''Unnamed Discount'')),
                   (''shopify_instance_id'', PInt (int (inst_id inst))),
                   (''shopify_price_rule_id'', PStr (py_str L (dict_get0 data ''id''))),
                   (''discount_code'', code),
                   (''value'', PFloat v),
                   (''value_type'', dict_get data ''value_type'' (PStr ''percentage''))]"
  let ?rest = "[(''target_type'', dict_get data ''target_type'' (PStr ''line_item'')),
                   (''target_selection'', dict_get data ''target_selection'' (PStr ''all'')),
                   (''allocation_method'',
                      dict_get data ''allocation_method'' (PStr ''across'')),
                   (''usage_limit'', dict_get data ''usage_limit'' (PInt 0)),
                   (''once_per_customer'',
                      dict_get data ''once_per_customer'' (PBool False)),
                   (''currency_id'', PInt (int (case inst_currency inst of Some c \<Rightarrow> c | None \<Rightarrow> cc))),
                   (''active_discount'', PBool True)]"
  from assms s q p c have v: "vals = (?base @ ?rest) @ ?opt"
    by (simp add: discount_vals_def Let_def)
  have r1: "''value'' \<notin> fst ` set ?rest" and r2: "''value_type'' \<notin> fst ` set ?rest"
    by simp_all
  have "map_of (rev ((?base @ ?rest) @ ?opt)) ''value'' = map_of (rev (?base @ ?rest)) ''value''"
    by (rule map_of_rev_append_notin [OF n1])
  also have "\<dots> = map_of (rev ?base) ''value''"
    by (rule map_of_rev_append_notin [OF r1])
  also have "\<dots> = Some (PFloat v)" by simp
  finally have 1: "map_of (rev vals) ''value'' = Some (PFloat v)" unfolding v .
  have "map_of (rev ((?base @ ?rest) @ ?opt)) ''value_type''
          = map_of (rev (?base @ ?rest)) ''value_type''"
    by (rule map_of_rev_append_notin [OF n2])
  also have "\<dots> = map_of (rev ?base) ''value_type''"
    by (rule map_of_rev_append_notin [OF r2])
  also have "\<dots> = Some (dict_get data ''value_type'' (PStr ''percentage''))" by simp
  finally have 2: "map_of (rev vals) ''value_type''
      = Some (dict_get data ''value_type'' (PStr ''percentage''))" unfolding v .
  from 1 2 show ?thesis by simp
qed

text \<open>
  Claim C9. For every imported price rule whose value type is \<open>percentage\<close>, the stored
  value is the absolute value of the raw upstream value (a raw -15.0 is stored as 15.0);
  for \<open>fixed_amount\<close> the raw value is stored unchanged. Whenever
  \<open>_create_or_update_discount\<close> returns a record, \<open>float\<close> of the raw value succeeded
  with some \<open>v\<close>, and the record returned, created or updated, holds \<open>\<bar>v\<bar>\<close> under
  \<open>value\<close> when the value type (\<open>percentage\<close> if absent) is \<open>percentage\<close>, and \<open>v\<close> itself
  otherwise; it holds the value type as received.
\<close>

theorem discount_value_stored:
  assumes "fst (create_or_update_discount L cc dc data inst e) = Inr i"
  shows "\<exists>v r. py_float L (dict_get data ''value'' (PFloat 0)) = Inr v
     \<and> browse ''shopify.discount'' i (db (snd (create_or_update_discount L cc dc data inst e))) = Some r
     \<and> fld r ''value''
         = PFloat (if dict_get data ''value_type'' (PStr ''percentage'') = PStr ''percentage''
                   then \<bar>v\<bar> else v)
     \<and> fld r ''value_type'' = dict_get data ''value_type'' (PStr ''percentage'')"
proof -
  let ?res = "create_or_update_discount L cc dc data inst e"
  let ?vt = "dict_get data ''value_type'' (PStr ''percentage'')"
  from assms obtain dval where dv: "discount_value L data = Inr dval"
    by (cases "discount_value L data") (auto simp: create_or_update_discount_def Let_def)
  then obtain v where pf: "py_float L (dict_get data ''value'' (PFloat 0)) = Inr v"
    and val: "dval = (if ?vt = PStr ''percentage'' then \<bar>v\<bar> else v)"
    by (auto simp: discount_value_def Let_def split: sum.splits)
  let ?code = "case first_discount_code dc of None \<Rightarrow> PStr [] | Some c \<Rightarrow> c"
  from assms dv obtain vals where vs: "discount_vals L cc ?code data inst = Inr vals"
    by (cases "discount_vals L cc ?code data inst")
       (auto simp: create_or_update_discount_def Let_def)
  note mv = discount_vals_value [OF vs dv]
  let ?e1 = "case first_discount_code dc of
               None \<Rightarrow> log_msg WARNING (''Could not fetch discount codes for price rule ''
                          @ py_str L (dict_get0 data ''id'')) e
             | Some c \<Rightarrow> e"
  have db1: "db ?e1 = db e" by (simp add: log_msg_def split: option.splits)
  let ?ex = "search_first ''shopify.discount''
               [(''shopify_price_rule_id'', PStr (py_str L (dict_get0 data ''id''))),
                (''shopify_instance_id'', PInt (int (inst_id inst)))] (db e)"
  have "\<exists>r d. browse ''shopify.discount'' i (db (snd ?res)) = Some r
          \<and> flds r = dict_update vals d"
  proof (cases ?ex)
    case None
    with assms dv vs have i: "i = fst (orm_create ''shopify.discount'' vals (db e))"
      and d: "db (snd ?res) = snd (orm_create ''shopify.discount'' vals (db e))"
      by (simp_all add: create_or_update_discount_def Let_def db1)
    show ?thesis unfolding i d browse_orm_create by auto
  next
    case (Some r0)
    with assms dv vs have i: "i = rid r0"
      and d: "db (snd ?res) = orm_write ''shopify.discount'' [rid r0] vals (db e)"
      by (simp_all add: create_or_update_discount_def Let_def db1)
    from search_first_browse [OF Some] obtain r1 where
      "browse ''shopify.discount'' (rid r0) (db e) = Some r1" by auto
    then show ?thesis unfolding i d browse_orm_write by auto
  qed
  then obtain r d where br: "browse ''shopify.discount'' i (db (snd ?res)) = Some r"
    and fl: "flds r = dict_update vals d" by blast
  have "fld r ''value'' = PFloat dval" "fld r ''value_type'' = ?vt"
    unfolding fld_def fl using mv by (simp_all add: fld_dict_update)
  with pf br val show ?thesis by auto
qed

theorem discount_value_stored_witness:
  "fst (create_or_update_discount demo_lib 3 (Inl (UserError ''offline'')) demo_price_rule
          demo_shop (demo_env [])) = Inr 1
   \<and> (\<exists>r. browse ''shopify.discount'' 1
              (db (snd (create_or_update_discount demo_lib 3 (Inl (UserError ''offline''))
                     demo_price_rule demo_shop (demo_env [])))) = Some r
          \<and> fld r ''value'' = PFloat 15 \<and> fld r ''value_type'' = PStr ''percentage'')"
proof -
  have h: "fst (create_or_update_discount demo_lib 3 (Inl (UserError ''offline'')) demo_price_rule
          demo_shop (demo_env [])) = Inr 1"
    by (simp add: create_or_update_discount_def discount_value_def discount_vals_def
          prerequisite_subtotal_entry_def prerequisite_quantity_entry_def entitled_entry_def
          date_entry_def first_discount_code_def demo_lib_def demo_shop_def demo_price_rule_def
          demo_env_def dict_get_def dict_get0_def search_first_def found_def active_test_def
          active_models_def orm_create_def next_id_def
          log_msg_def Let_def)
  have p: "py_float demo_lib (dict_get demo_price_rule ''value'' (PFloat 0)) = Inr (- 15)"
    by (simp add: demo_lib_def demo_price_rule_def dict_get_def)
  have t: "dict_get demo_price_rule ''value_type'' (PStr ''percentage'') = PStr ''percentage''"
    by (simp add: demo_price_rule_def dict_get_def)
  from discount_value_stored [OF h] p t show ?thesis using h by auto
qed

subsection \<open>Evaluation on sample inputs\<close>

lemma demo_next: "next_page_info demo_next_link = Inr (Some ''abc'')"
  by (simp add: next_page_info_def demo_next_link_def rel_next_def py_split_def)

lemma no_next: "next_page_info [] = Inr None"
  by (simp add: next_page_info_def rel_next_def)

lemmas eval_order = import_shopify_orders_def order_page_def demo_page_def no_next
  process_order_def upsert_order_def prepare_order_vals_def get_or_create_customer_def
  order_header_def currency_entries_def create_order_lines_def order_key_def order_lines_def
  dict_item_def dict_get_def dict_get0_def search_first_def search_all_def
  found_def active_test_def is_active_def active_models_def browse_def
  demo_env_def demo_shop_def demo_lib_def demo_order_def log_msg_def orm_create_def
  orm_write_def next_id_def request_params_def cr_commit_def defaults_def matches_def fld_def
  dict_update_def parse_shopify_datetime_def Let_def

lemmas eval_customer = import_shopify_customers_def customer_page_def demo_page_def no_next
  process_customer_def prepare_customer_vals_def address_entries_def customer_name_def
  customer_key_def dict_item_def dict_get_def dict_get0_def search_first_def search_all_def
  found_def active_test_def is_active_def active_models_def
  demo_env_def demo_shop_def demo_lib_def log_msg_def orm_create_def orm_write_def next_id_def
  defaults_def matches_def fld_def dict_update_def parse_shopify_datetime_def Let_def

lemmas eval_product = import_shopify_products_def product_page_def product_batch_def
  process_product_def prepare_product_vals_def variant_price_sku_def
  first_item_def image_entry_def product_key_def dict_item_def dict_get_def dict_get0_def
  search_first_def search_all_def
  found_def active_test_def is_active_def active_models_def demo_env_def demo_shop_def demo_lib_def log_msg_def
  orm_create_def orm_write_def next_id_def defaults_def matches_def fld_def dict_update_def
  parse_shopify_datetime_def request_params_def cr_commit_def cr_rollback_def demo_page_def
  no_next Let_def

subsection \<open>Cursor requests\<close>

text \<open>
  Claim C2. Once a cursor has been read from the \<open>Link\<close> header, the next request
  carries only the cursor. \<open>import_shopify_customers\<close> does not do so: on a first page
  whose header names a next page with cursor \<open>abc\<close>, the second request carries
  \<open>limit\<close> next to \<open>page_info\<close>, because line 48 adds the cursor to the dictionary the
  loop was started with.
\<close>

theorem customers_cursor_request_keeps_limit:
  "map_option (\<lambda>(r, n, e). (r, sent n))
     (import_shopify_customers demo_lib ''2024-01-01'' (Some demo_shop)
        \<lparr>pending = [demo_page ''customers'' [PDict [(''id'', PInt 1)]] demo_next_link,
                    demo_page ''customers'' [] []],
         sent = []\<rparr> (demo_env []))
   = Some (Inr (1, 0),
           [[(''limit'', PInt 250)], [(''limit'', PInt 250), (''page_info'', PStr ''abc'')]])"
  by (simp add: eval_customer demo_next)

subsection \<open>Batch-level exceptions\<close>

text \<open>
  Claim C4. When a batch raises a batch-level exception, only that batch is rolled back
  and the import goes on with the next one. \<open>import_shopify_orders\<close> does not do so: on
  one page of two orders, imported in batches of one, with a storage that fails the
  first commit, the import ends with a \<open>UserError\<close>; the first order is left in the
  working rows (no rollback), the second order was never processed and nothing is
  committed. \<open>import_shopify_products\<close> on two products under the same storage rolls
  the first batch back, imports and commits the second, and returns its counts.
\<close>

theorem order_import_aborts_on_batch_error:
  "map_option (\<lambda>(r, n, e). (r, map rid (search_all ''sale.order'' [] (db e)), committed e))
     (import_shopify_orders demo_lib 9 ''2024-01-01'' (Some demo_shop) None 1
        \<lparr>pending = [demo_page ''orders'' [demo_order 1, demo_order 2] []], sent = []\<rparr>
        ((demo_env [])\<lparr>commit_faults := [True]\<rparr>))
     = Some (Inl (UserError ''Error importing orders: commit failed''), [1], [])
   \<and> map_option (\<lambda>(r, n, e). (r, map (\<lambda>r. fld r ''shopify_product_id'') (db e), db e = committed e))
     (import_shopify_products demo_lib (\<lambda>u. PBool False) ''2024-01-01'' (Some demo_shop) 1 True
        \<lparr>pending = [demo_page ''products'' [demo_order 1, demo_order 2] []], sent = []\<rparr>
        ((demo_env [])\<lparr>commit_faults := [True]\<rparr>))
     = Some (Inr (2, 2, 0), [PStr ''2''], True)"
  by (simp add: eval_order eval_product str_of_int_def)

subsection \<open>Record-level exceptions\<close>

text \<open>
  Claim C5. A mapping exception of one record is caught for that record, which is logged
  and skipped, and the other records are still processed. The customer loop of
  \<open>import_shopify_customers\<close> has no handler of its own: on a page whose first customer
  has no \<open>id\<close>, the import ends with a \<open>UserError\<close> and the second customer is never
  created. \<open>_process_product_batch\<close> on the same shape of input skips the first record
  and creates the second.
\<close>

theorem customer_import_aborts_on_bad_record:
  "map_option (\<lambda>(r, n, e). (r, length (search_all ''res.partner'' [] (db e))))
     (import_shopify_customers demo_lib ''2024-01-01'' (Some demo_shop)
        \<lparr>pending = [demo_page ''customers''
                      [PDict [(''email'', PStr ''a@b.c'')], PDict [(''id'', PInt 2)]] []],
         sent = []\<rparr> (demo_env []))
     = Some (Inl (UserError (''Error importing customers: '' @ [CHR 0x27] @ ''id'' @ [CHR 0x27])), 0)
   \<and> (case process_product_batch demo_lib (\<lambda>u. PBool False) True demo_shop
              [PDict [(''title'', PStr ''a'')], PDict [(''id'', PInt 2)]] (0, 0) (demo_env []) of
         (r, e) \<Rightarrow> (r, length (search_all ''product.template'' [] (db e))))
     = (Inr (1, 0), 1)"
  by (simp add: eval_customer eval_product)

subsection \<open>Orders past the draft state\<close>

text \<open>
  Claim C3. An order already present is never given more lines when it has lines, and is
  never written once its state is past draft or sent, on the bulk path and on the
  webhook path alike. \<open>_process_order_webhook\<close> does not test the state: an
  \<open>orders/updated\<close> webhook for an order in state \<open>sale\<close> overwrites its note.
  \<open>_process_order_batch\<close> on the same order and payload leaves the note as it was.
\<close>

theorem webhook_writes_confirmed_order:
  "map_option (\<lambda>r. (fld r ''state'', fld r ''note''))
     (browse ''sale.order'' 1
        (db (snd (process_order_webhook demo_lib 9 ''orders/updated''
                    [(''id'', PInt 7), (''note'', PStr ''changed upstream'')] demo_shop
                    (demo_env [demo_confirmed_order])))))
     = Some (PStr ''sale'', PStr ''changed upstream'')
   \<and> map_option (\<lambda>r. (fld r ''state'', fld r ''note''))
     (browse ''sale.order'' 1
        (db (snd (process_order_batch demo_lib 9 demo_shop
                    [PDict [(''id'', PInt 7), (''note'', PStr ''changed upstream'')]] (0, 0)
                    (demo_env [demo_confirmed_order])))))
     = Some (PStr ''sale'', PStr ''as confirmed'')"
  by (simp add: process_order_webhook_def demo_confirmed_order_def eval_order str_of_int_def)

subsection \<open>The stale-flag reset\<close>

















subsection \<open>The end of a run\<close>

lemma self_fld_self_write:
  "self_fld sid f (self_write sid vals e)
     = (case browse ''shopify.scheduler'' sid (db e) of
          None \<Rightarrow> PBool False
        | Some r \<Rightarrow> dict_get (dict_update vals (flds r)) f (PBool False))"
  by (simp add: self_fld_def self_write_def browse_orm_write fld_def split: option.splits)

lemma self_fld_db_cong: "db e = db e' \<Longrightarrow> self_fld sid f e = self_fld sid f e'"
  by (simp add: self_fld_def)

lemma fld_status_vals:
  "dict_get (dict_update (status_vals now st msg) d) ''is_running'' (PBool False) = PBool False"
  "dict_get (dict_update (status_vals now st msg) d) ''last_run'' (PBool False) = PDatetime now"
  "dict_get (dict_update (status_vals now st msg) d) ''last_run_status'' (PBool False) = PStr st"
  "dict_get (dict_update (status_vals now st msg) d) ''last_run_message'' (PBool False) = PStr msg"
  by (simp_all add: dict_get_def map_of_dict_update status_vals_def)

lemma guards_passed:
  assumes "fst (run_scheduled_sync P sid (rs, e)) \<noteq> SkippedLocked"
      and "fst (run_scheduled_sync P sid (rs, e)) \<noteq> SkippedRunning"
  shows "run_scheduled_sync P sid (rs, e)
       = (case mark_running P sid e of
            (Some x, e3) \<Rightarrow> (Raised x, AList.update (scheduler_key sid) (PBool True) rs, e3)
          | (None, e3) \<Rightarrow>
              (case run_body P sid e3 of
                 (None, e4) \<Rightarrow>
                   (Ran, release_lock sid (AList.update (scheduler_key sid) (PBool True) rs), e4)
               | (Some y, e4) \<Rightarrow>
                   (Raised y, release_lock sid (AList.update (scheduler_key sid) (PBool True) rs), e4)))"
  using assms
  by (auto simp: run_scheduled_sync_def guard_lock_def guard_flag_def split: if_splits)

lemma released:
  "\<not> truthy (dict_get0 (release_lock sid rs) (scheduler_key sid))"
  by (simp add: release_lock_def dict_get0_def dict_get_def update_conv')

lemma run_body_ok:
  assumes "sub_result P sid e = (errors, succ, e1)" "rp_fault P = None"
  shows "fst (run_body P sid e) = None"
    and "db (snd (run_body P sid e))
       = orm_write ''shopify.scheduler'' [sid]
           (status_vals (rp_now P) (run_status errors succ) (run_message errors succ)) (db e1)"
  using assms by (simp_all add: run_body_def log_msg_def self_write_def)

lemma run_body_handled:
  assumes "sub_result P sid e = (errors, succ, e1)" "rp_fault P = Some x" "rp_handler_fault P = None"
  shows "fst (run_body P sid e) = None"
    and "db (snd (run_body P sid e))
       = orm_write ''shopify.scheduler'' [sid]
           (status_vals (rp_now P) ''failed'' (exn_str x)) (db e1)"
  using assms by (simp_all add: run_body_def Let_def log_msg_def self_write_def)

lemma run_body_raised:
  assumes "sub_result P sid e = (errors, succ, e1)" "rp_fault P = Some x" "rp_handler_fault P = Some y"
  shows "run_body P sid e = (Some y, log_msg ERROR (''Scheduled sync failed: '' @ exn_str x) e1)"
  using assms by (simp add: run_body_def Let_def)

lemma self_fld_orm_write:
  "db e' = orm_write ''shopify.scheduler'' [sid] vals rows \<Longrightarrow>
   self_fld sid f e'
     = (case browse ''shopify.scheduler'' sid rows of
          None \<Rightarrow> PBool False
        | Some r \<Rightarrow> dict_get (dict_update vals (flds r)) f (PBool False))"
  by (simp add: self_fld_def browse_orm_write fld_def split: option.splits)


text \<open>
  Claim C7, as amended. Take a run that gets past both guards and whose flag write and
  commit of lines 157 and 158 return, and let \<open>errors\<close>, \<open>succ\<close> and \<open>e1\<close> be what
  the sub-syncs left. If the \<open>try\<close> block does not raise, the run ends with one write
  of \<open>last_run\<close>, the status of the sub-syncs, their messages and \<open>is_running = False\<close>.
  If it raises \<open>x\<close> and the handler's write returns, the run ends with the same write
  for the status \<open>failed\<close> and the text of \<open>x\<close>. In both cases the flag reads \<open>False\<close>
  afterwards. If the handler's write raises \<open>y\<close> as well, \<open>y\<close> leaves the call and no
  row is written. The entry of the process's map is given back in every case.
\<close>

theorem completed_run_clears_flag:
  assumes "fst (run_scheduled_sync P sid (rs, e)) \<noteq> SkippedLocked"
      and "fst (run_scheduled_sync P sid (rs, e)) \<noteq> SkippedRunning"
      and "mark_running P sid e = (None, e3)"
      and "sub_result P sid e3 = (errors, succ, e1)"
  shows "(rp_fault P = None \<longrightarrow>
            fst (run_scheduled_sync P sid (rs, e)) = Ran
          \<and> db (snd (snd (run_scheduled_sync P sid (rs, e))))
              = orm_write ''shopify.scheduler'' [sid]
                  (status_vals (rp_now P) (run_status errors succ) (run_message errors succ))
                  (db e1)
          \<and> (browse ''shopify.scheduler'' sid (db e1) \<noteq> None \<longrightarrow>
                self_fld sid ''last_run'' (snd (snd (run_scheduled_sync P sid (rs, e))))
                  = PDatetime (rp_now P)
              \<and> self_fld sid ''last_run_status'' (snd (snd (run_scheduled_sync P sid (rs, e))))
                  = PStr (run_status errors succ)
              \<and> self_fld sid ''last_run_message'' (snd (snd (run_scheduled_sync P sid (rs, e))))
                  = PStr (run_message errors succ)))
       \<and> (rp_fault P = Some x \<and> rp_handler_fault P = None \<longrightarrow>
            fst (run_scheduled_sync P sid (rs, e)) = Ran
          \<and> db (snd (snd (run_scheduled_sync P sid (rs, e))))
              = orm_write ''shopify.scheduler'' [sid]
                  (status_vals (rp_now P) ''failed'' (exn_str x)) (db e1)
          \<and> (browse ''shopify.scheduler'' sid (db e1) \<noteq> None \<longrightarrow>
                self_fld sid ''last_run'' (snd (snd (run_scheduled_sync P sid (rs, e))))
                  = PDatetime (rp_now P)
              \<and> self_fld sid ''last_run_status'' (snd (snd (run_scheduled_sync P sid (rs, e))))
                  = PStr ''failed''
              \<and> self_fld sid ''last_run_message'' (snd (snd (run_scheduled_sync P sid (rs, e))))
                  = PStr (exn_str x)))
       \<and> (rp_fault P = Some x \<and> rp_handler_fault P = Some y \<longrightarrow>
            fst (run_scheduled_sync P sid (rs, e)) = Raised y
          \<and> db (snd (snd (run_scheduled_sync P sid (rs, e)))) = db e1)
       \<and> (fst (run_scheduled_sync P sid (rs, e)) = Ran \<longrightarrow>
            self_fld sid ''is_running'' (snd (snd (run_scheduled_sync P sid (rs, e)))) = PBool False)
       \<and> \<not> truthy (dict_get0 (fst (snd (run_scheduled_sync P sid (rs, e)))) (scheduler_key sid))"
proof -
  let ?R = "run_scheduled_sync P sid (rs, e)"
  let ?rs = "release_lock sid (AList.update (scheduler_key sid) (PBool True) rs)"
  have R: "?R = (case run_body P sid e3 of
                   (None, e4) \<Rightarrow> (Ran, ?rs, e4) | (Some y, e4) \<Rightarrow> (Raised y, ?rs, e4))"
    using guards_passed [OF assms(1,2)] assms(3) by simp
  have lock: "\<not> truthy (dict_get0 (fst (snd ?R)) (scheduler_key sid))"
    unfolding R using released [of sid "AList.update (scheduler_key sid) (PBool True) rs"]
    by (simp split: prod.splits option.splits)
  have ok: "fst ?R = Ran
          \<and> db (snd (snd ?R))
              = orm_write ''shopify.scheduler'' [sid]
                  (status_vals (rp_now P) (run_status errors succ) (run_message errors succ))
                  (db e1)" if f: "rp_fault P = None"
    unfolding R using run_body_ok [OF assms(4) f]
    by (cases "run_body P sid e3") auto
  have handled: "fst ?R = Ran
          \<and> db (snd (snd ?R))
              = orm_write ''shopify.scheduler'' [sid]
                  (status_vals (rp_now P) ''failed'' (exn_str x)) (db e1)"
    if f: "rp_fault P = Some x" "rp_handler_fault P = None"
    unfolding R using run_body_handled [OF assms(4) f]
    by (cases "run_body P sid e3") auto
  have raised: "fst ?R = Raised y \<and> db (snd (snd ?R)) = db e1"
    if f: "rp_fault P = Some x" "rp_handler_fault P = Some y"
    unfolding R using run_body_raised [OF assms(4) f] by (simp add: log_msg_def)
  have reads: "self_fld sid ''is_running'' e' = PBool False
      \<and> (browse ''shopify.scheduler'' sid (db e1) \<noteq> None \<longrightarrow>
            self_fld sid ''last_run'' e' = PDatetime (rp_now P)
          \<and> self_fld sid ''last_run_status'' e' = PStr s
          \<and> self_fld sid ''last_run_message'' e' = PStr m)"
    if "db e' = orm_write ''shopify.scheduler'' [sid] (status_vals (rp_now P) s m) (db e1)"
    for e' s m
    using self_fld_orm_write [OF that]
    by (auto simp: fld_status_vals split: option.splits)
  have 1: "rp_fault P = None \<longrightarrow>
            fst ?R = Ran
          \<and> db (snd (snd ?R))
              = orm_write ''shopify.scheduler'' [sid]
                  (status_vals (rp_now P) (run_status errors succ) (run_message errors succ))
                  (db e1)
          \<and> (browse ''shopify.scheduler'' sid (db e1) \<noteq> None \<longrightarrow>
                self_fld sid ''last_run'' (snd (snd ?R)) = PDatetime (rp_now P)
              \<and> self_fld sid ''last_run_status'' (snd (snd ?R)) = PStr (run_status errors succ)
              \<and> self_fld sid ''last_run_message'' (snd (snd ?R)) = PStr (run_message errors succ))"
    using ok reads by blast
  have 2: "rp_fault P = Some x \<and> rp_handler_fault P = None \<longrightarrow>
            fst ?R = Ran
          \<and> db (snd (snd ?R))
              = orm_write ''shopify.scheduler'' [sid]
                  (status_vals (rp_now P) ''failed'' (exn_str x)) (db e1)
          \<and> (browse ''shopify.scheduler'' sid (db e1) \<noteq> None \<longrightarrow>
                self_fld sid ''last_run'' (snd (snd ?R)) = PDatetime (rp_now P)
              \<and> self_fld sid ''last_run_status'' (snd (snd ?R)) = PStr ''failed''
              \<and> self_fld sid ''last_run_message'' (snd (snd ?R)) = PStr (exn_str x))"
    using handled reads by blast
  have 3: "rp_fault P = Some x \<and> rp_handler_fault P = Some y \<longrightarrow>
            fst ?R = Raised y \<and> db (snd (snd ?R)) = db e1"
    using raised by blast
  have 4: "fst ?R = Ran \<longrightarrow> self_fld sid ''is_running'' (snd (snd ?R)) = PBool False"
  proof
    assume ran: "fst ?R = Ran"
    show "self_fld sid ''is_running'' (snd (snd ?R)) = PBool False"
    proof (cases "rp_fault P")
      case None
      with ok reads show ?thesis by blast
    next
      case (Some x')
      show ?thesis
      proof (cases "rp_handler_fault P")
        case None
        have "fst ?R = Ran
          \<and> db (snd (snd ?R))
              = orm_write ''shopify.scheduler'' [sid]
                  (status_vals (rp_now P) ''failed'' (exn_str x')) (db e1)"
          unfolding R using run_body_handled [OF assms(4) Some None]
          by (cases "run_body P sid e3") auto
        with reads show ?thesis by blast
      next
        case (Some y')
        have "fst ?R = Raised y'"
          unfolding R using run_body_raised [OF assms(4) \<open>rp_fault P = Some x'\<close> Some] by simp
        with ran show ?thesis by simp
      qed
    qed
  qed
  show ?thesis
    apply (rule conjI [OF 1])
    apply (rule conjI [OF 2])
    apply (rule conjI [OF 3])
    apply (rule conjI [OF 4])
    apply (rule lock)
    done
qed


lemmas eval_run =
  run_scheduled_sync_def guard_lock_def guard_flag_def mark_running_def run_body_def
  sub_result_def all_subsyncs_def release_lock_def self_write_def self_fld_def cr_commit_def
  orm_write_def browse_def fld_def dict_get_def dict_get0_def dict_update_def log_msg_def
  status_vals_def run_status_def run_message_def scheduler_key_def
  demo_params_def demo_storage_down_def demo_env_def demo_sched_def demo_lib_def

theorem completed_run_clears_flag_witness:
  "fst (run_scheduled_sync demo_params 1 ([], demo_env [demo_sched 1 False])) \<noteq> SkippedLocked
   \<and> fst (run_scheduled_sync demo_params 1 ([], demo_env [demo_sched 1 False])) \<noteq> SkippedRunning
   \<and> mark_running demo_params 1 (demo_env [demo_sched 1 False])
       = (None, demo_env [demo_sched 1 True])
   \<and> sub_result demo_params 1 (demo_env [demo_sched 1 True])
       = ([''Product sync failed: timeout''], [''Customers synced successfully''],
          log_msg INFO ''Running scheduled sync for Nightly'' (demo_env [demo_sched 1 True]))
   \<and> rp_fault demo_params = None
   \<and> fst (run_scheduled_sync demo_params 1 ([], demo_env [demo_sched 1 False])) = Ran
   \<and> self_fld 1 ''last_run_status''
        (snd (snd (run_scheduled_sync demo_params 1 ([], demo_env [demo_sched 1 False]))))
       = PStr ''partial''
   \<and> self_fld 1 ''is_running''
        (snd (snd (run_scheduled_sync demo_params 1 ([], demo_env [demo_sched 1 False]))))
       = PBool False"
proof -
  let ?E = "demo_env [demo_sched 1 False]"
  let ?E3 = "demo_env [demo_sched 1 True]"
  let ?E1 = "log_msg INFO ''Running scheduled sync for Nightly'' ?E3"
  have h1: "fst (run_scheduled_sync demo_params 1 ([], ?E)) \<noteq> SkippedLocked"
    and h2: "fst (run_scheduled_sync demo_params 1 ([], ?E)) \<noteq> SkippedRunning"
    by (simp_all add: eval_run)
  have h3: "mark_running demo_params 1 ?E = (None, ?E3)"
    by (simp add: eval_run)
  have h4: "sub_result demo_params 1 ?E3
       = ([''Product sync failed: timeout''], [''Customers synced successfully''], ?E1)"
    by (simp add: eval_run)
  have f: "rp_fault demo_params = None" by (simp add: demo_params_def)
  have b: "browse ''shopify.scheduler'' 1 (db ?E1) \<noteq> None"
    by (simp add: eval_run)
  have s: "run_status [''Product sync failed: timeout''] [''Customers synced successfully'']
             = ''partial''"
    by (simp add: run_status_def)
  show ?thesis
    using completed_run_clears_flag [OF h1 h2 h3 h4] h1 h2 h3 h4 f b s by metis
qed

theorem failed_run_leaves_flag:
  "fst (run_scheduled_sync demo_storage_down 1 ([], demo_env [demo_sched 1 False]))
       = Raised (StorageError ''transaction aborted'')
   \<and> self_fld 1 ''is_running''
        (snd (snd (run_scheduled_sync demo_storage_down 1 ([], demo_env [demo_sched 1 False]))))
       = PBool True
   \<and> committed (snd (snd (run_scheduled_sync demo_storage_down 1
                             ([], demo_env [demo_sched 1 False]))))
       = [demo_sched 1 True]
   \<and> self_fld 1 ''last_run_status''
        (snd (snd (run_scheduled_sync demo_storage_down 1 ([], demo_env [demo_sched 1 False]))))
       = PBool False
   \<and> fst (run_scheduled_sync demo_params 1
            ([], (demo_env [demo_sched 1 False])\<lparr>commit_faults := [True]\<rparr>))
       = Raised (StorageError ''commit failed'')
   \<and> self_fld 1 ''is_running''
        (snd (snd (run_scheduled_sync demo_params 1
                     ([], (demo_env [demo_sched 1 False])\<lparr>commit_faults := [True]\<rparr>))))
       = PBool True
   \<and> self_fld 1 ''last_run_status''
        (snd (snd (run_scheduled_sync demo_params 1
                     ([], (demo_env [demo_sched 1 False])\<lparr>commit_faults := [True]\<rparr>))))
       = PBool False"
  by (simp add: eval_run)

subsection \<open>Importing a record twice\<close>




lemma found_holds_key: "found m dmn r \<Longrightarrow> holds_key m dmn r"
  by (simp add: found_def holds_key_def)

lemma keyed_rows_0:
  "keyed_rows m dmn e = 0 \<Longrightarrow> filter (holds_key m dmn) (db e) = []"
  by (simp add: keyed_rows_def)

lemma no_key_not_found:
  "filter (holds_key m dmn) rows = [] \<Longrightarrow> search_first m dmn rows = None"
  by (auto simp: search_first_def find_None_iff filter_empty_conv dest: found_holds_key)
























end
